theory Spec2Isabelle
  imports Complex_Main "HOL-Library.Word"
begin

section \<open>Car Selling API: data model\<close>

text \<open>
  A shallow embedding of \<^verbatim>\<open>scripts/main.py\<close>. Every handler is a function of its
  request, the resolved \<^verbatim>\<open>current_user\<close>, the values the environment supplies
  (clock, UUIDs, password hashing, whether an I/O operation succeeds) and the persistent
  state. It returns the response or the error raised, together with the list of effects
  on the persistent state in the order the handler performs them.

  Strings are byte strings. A price is a Python \<^verbatim>\<open>float\<close> that the code only stores
  and returns; it is modelled as a real number. Timestamps are seconds as integers.
\<close>

type_synonym byte = "8 word"

text \<open>Table \<^verbatim>\<open>users\<close> (class \<^verbatim>\<open>UserDB\<close>).\<close>

record UserDB =
  user_id :: string
  username :: string
  email :: string
  hashed_password :: string
  user_created_at :: int

text \<open>
  Table \<^verbatim>\<open>cars\<close> (class \<^verbatim>\<open>CarDB\<close>). Only \<^verbatim>\<open>id\<close> is a primary key; every other
  column the handlers assign from a request is nullable, so it holds an option.
\<close>

record CarDB =
  car_id :: string
  car_make :: "string option"
  model :: "string option"
  year :: "int option"
  price :: "real option"
  mileage :: "int option"
  description :: "string option"
  color :: "string option"
  fuel_type :: "string option"
  transmission :: "string option"
  car_image :: "string option"
  seller_id :: string
  created_at :: int
  is_sold :: "bool option"

text \<open>Request and response bodies (the pydantic models).\<close>

record UserCreate =
  uc_username :: string
  uc_email :: string
  uc_password :: string
  uc_confirmed_password :: string

record UserLogin =
  ul_email :: string
  ul_password :: string

record User =
  u_id :: string
  u_username :: string
  u_email :: string
  u_created_at :: int

record CarCreate =
  cc_make :: string
  cc_model :: string
  cc_year :: int
  cc_price :: real
  cc_mileage :: int
  cc_description :: "string option"
  cc_color :: string
  cc_fuel_type :: string
  cc_transmission :: string
  cc_image :: string

record Car =
  c_id :: string
  c_make :: string
  c_model :: string
  c_year :: int
  c_price :: real
  c_mileage :: int
  c_description :: "string option"
  c_color :: string
  c_fuel_type :: string
  c_transmission :: string
  c_seller_id :: string
  c_created_at :: int
  c_image :: string
  c_is_sold :: bool

text \<open>
  \<^verbatim>\<open>CarUpdate\<close>: every field is optional with default \<^verbatim>\<open>None\<close>, and
  \<^verbatim>\<open>dict(exclude_unset=True)\<close> keeps exactly the fields the request body names. A
  field is therefore either absent from the body, or present with a value that may be
  \<^verbatim>\<open>null\<close>.
\<close>

datatype 'a field = Unset | Provided "'a option"

record CarUpdate =
  cu_make :: "string field"
  cu_model :: "string field"
  cu_year :: "int field"
  cu_price :: "real field"
  cu_mileage :: "int field"
  cu_description :: "string field"
  cu_color :: "string field"
  cu_fuel_type :: "string field"
  cu_transmission :: "string field"
  cu_image :: "string field"
  cu_is_sold :: "bool field"

text \<open>The multipart form of \<^verbatim>\<open>PUT /cars/{car_id}/upload\<close>: every field defaults to \<^verbatim>\<open>None\<close>.\<close>

record CarForm =
  cf_make :: "string option"
  cf_model :: "string option"
  cf_year :: "int option"
  cf_price :: "real option"
  cf_mileage :: "int option"
  cf_color :: "string option"
  cf_fuel_type :: "string option"
  cf_transmission :: "string option"
  cf_description :: "string option"
  cf_is_sold :: "bool option"

record UploadFile =
  filename :: string
  content_type :: string
  contents :: "byte list"

record UploadResponse =
  ur_filename :: string
  ur_url :: string
  ur_message :: string

section \<open>Persistent state, effects and errors\<close>

text \<open>
  The database tables in insertion order, and the upload directory as a map from the
  file name under \<^verbatim>\<open>uploads/\<close> to its contents.
\<close>

record state =
  users :: "UserDB list"
  cars :: "CarDB list"
  files :: "string \<rightharpoonup> byte list"

datatype event =
    FileWrite string "byte list"
  | FileUnlink string
  | DbAddUser UserDB
  | DbAddCar CarDB
  | DbUpdateCar CarDB
  | DbDeleteCar string

fun apply_event :: "state \<Rightarrow> event \<Rightarrow> state" where
  "apply_event s (FileWrite name bs) = s\<lparr>files := (files s)(name \<mapsto> bs)\<rparr>"
| "apply_event s (FileUnlink name) = s\<lparr>files := (files s)(name := None)\<rparr>"
| "apply_event s (DbAddUser u) = s\<lparr>users := users s @ [u]\<rparr>"
| "apply_event s (DbAddCar c) = s\<lparr>cars := cars s @ [c]\<rparr>"
| "apply_event s (DbUpdateCar c) =
     s\<lparr>cars := map (\<lambda>x. if car_id x = car_id c then c else x) (cars s)\<rparr>"
| "apply_event s (DbDeleteCar cid) = s\<lparr>cars := filter (\<lambda>x. car_id x \<noteq> cid) (cars s)\<rparr>"

definition exec :: "state \<Rightarrow> event list \<Rightarrow> state" where
  "exec s evs = foldl apply_event s evs"

text \<open>
  \<^verbatim>\<open>HTTPException(status_code, detail, headers)\<close>, and an exception no handler
  catches, which the framework answers with status 500.
\<close>

datatype error =
    HTTPException nat string "(string \<times> string) list"
  | Unhandled string

fun status_code :: "error \<Rightarrow> nat" where
  "status_code (HTTPException code detail headers) = code"
| "status_code (Unhandled exn) = 500"

type_synonym 'a result = "(error + 'a) \<times> event list"

text \<open>
  What the environment decides: the clock, the password hashing library, the case
  mapping \<^verbatim>\<open>str.lower\<close> of the Python library (a Unicode mapping, taken as given),
  and whether writing a file, committing the database session and unlinking a file
  succeed.
\<close>

record env =
  now :: int
  pwd_hash :: "string \<Rightarrow> string"
  pwd_verify :: "string \<Rightarrow> string \<Rightarrow> bool"
  str_lower :: "string \<Rightarrow> string"
  write_ok :: bool
  commit_ok :: bool
  unlink_ok :: bool

definition www_authenticate :: "(string \<times> string) list" where
  "www_authenticate = [(''WWW-Authenticate'', ''Bearer'')]"

section \<open>Tokens and authentication\<close>

text \<open>
  The JWT library by its contract. A token is either a claim set signed under some key,
  or a string that is no JWT at all. \<^verbatim>\<open>jwt.decode\<close> checks the signature first and
  the \<^verbatim>\<open>exp\<close> claim second; every failure other than expiry is a \<^verbatim>\<open>PyJWTError\<close>.
\<close>

record claims =
  cl_sub :: "string option"
  cl_type :: "string option"
  cl_exp :: "int option"

datatype token = Jwt string claims | NotJwt string

datatype jwt_error = ExpiredSignatureError | PyJWTError

definition SECRET_KEY :: string where
  "SECRET_KEY = ''a88e2f0119f801637e022ea0ea364c18c104c0e110b31b9cdb03f609b9a96fb4''"

definition ACCESS_TOKEN_EXPIRE_MINUTES :: int where
  "ACCESS_TOKEN_EXPIRE_MINUTES = 10"

definition REFRESH_TOKEN_EXPIRE_DAYS :: int where
  "REFRESH_TOKEN_EXPIRE_DAYS = 1"

definition jwt_encode :: "claims \<Rightarrow> string \<Rightarrow> token" where
  "jwt_encode payload key = Jwt key payload"

fun jwt_decode :: "token \<Rightarrow> string \<Rightarrow> int \<Rightarrow> jwt_error + claims" where
  "jwt_decode (NotJwt raw) key t = Inl PyJWTError"
| "jwt_decode (Jwt k payload) key t =
     (if k \<noteq> key then Inl PyJWTError
      else (case cl_exp payload of
              None \<Rightarrow> Inr payload
            | Some expiry \<Rightarrow> if expiry \<le> t then Inl ExpiredSignatureError else Inr payload))"

text \<open>
  Durations are seconds. \<^verbatim>\<open>if expires_delta:\<close> is false for \<^verbatim>\<open>None\<close> and for a
  zero \<^verbatim>\<open>timedelta\<close>.
\<close>

definition create_access_token :: "env \<Rightarrow> claims \<Rightarrow> int option \<Rightarrow> token" where
  "create_access_token e data expires_delta =
     (let expire = (case expires_delta of
                      None \<Rightarrow> now e + 15 * 60
                    | Some d \<Rightarrow> if d \<noteq> 0 then now e + d else now e + 15 * 60) in
      jwt_encode (data\<lparr>cl_exp := Some expire, cl_type := Some ''access''\<rparr>) SECRET_KEY)"

definition create_refresh_token :: "env \<Rightarrow> claims \<Rightarrow> int option \<Rightarrow> token" where
  "create_refresh_token e data expires_delta =
     (let expire = (case expires_delta of
                      None \<Rightarrow> now e + REFRESH_TOKEN_EXPIRE_DAYS * 86400
                    | Some d \<Rightarrow> if d \<noteq> 0 then now e + d
                                else now e + REFRESH_TOKEN_EXPIRE_DAYS * 86400) in
      jwt_encode (data\<lparr>cl_exp := Some expire, cl_type := Some ''refresh''\<rparr>) SECRET_KEY)"

definition verify_token :: "env \<Rightarrow> token \<Rightarrow> error + string" where
  "verify_token e credentials =
     (case jwt_decode credentials SECRET_KEY (now e) of
        Inl ExpiredSignatureError \<Rightarrow> Inl (HTTPException 401 ''Token expired'' www_authenticate)
      | Inl PyJWTError \<Rightarrow>
          Inl (HTTPException 401 ''Could not validate credentials'' www_authenticate)
      | Inr payload \<Rightarrow>
          if cl_type payload \<noteq> Some ''access'' then
            Inl (HTTPException 401 ''Invalid token type'' www_authenticate)
          else
            (case cl_sub payload of
               None \<Rightarrow>
                 Inl (HTTPException 401 ''Could not validate credentials'' www_authenticate)
             | Some addr \<Rightarrow> Inr addr))"

definition get_user_by_email :: "state \<Rightarrow> string \<Rightarrow> UserDB option" where
  "get_user_by_email s addr = find (\<lambda>u. email u = addr) (users s)"

definition get_current_user :: "string \<Rightarrow> state \<Rightarrow> error + UserDB" where
  "get_current_user addr s =
     (case get_user_by_email s addr of
        None \<Rightarrow> Inl (HTTPException 401 ''User not found'' [])
      | Some user \<Rightarrow> Inr user)"

record Token =
  tk_access_token :: token
  tk_refresh_token :: token
  tk_token_type :: string

text \<open>The pair of tokens that login, access-token and refresh-token each mint.\<close>

definition token_pair :: "env \<Rightarrow> string \<Rightarrow> Token" where
  "token_pair e addr =
     \<lparr>tk_access_token =
        create_access_token e \<lparr>cl_sub = Some addr, cl_type = None, cl_exp = None\<rparr>
          (Some (ACCESS_TOKEN_EXPIRE_MINUTES * 60)),
      tk_refresh_token =
        create_refresh_token e \<lparr>cl_sub = Some addr, cl_type = None, cl_exp = None\<rparr>
          (Some (REFRESH_TOKEN_EXPIRE_DAYS * 86400)),
      tk_token_type = ''bearer''\<rparr>"

text \<open>
  \<^verbatim>\<open>POST /register\<close>. The columns \<^verbatim>\<open>id\<close>, \<^verbatim>\<open>username\<close> and \<^verbatim>\<open>email\<close> are unique,
  so a commit that repeats one of them fails.
\<close>

definition insert_user_ok :: "state \<Rightarrow> UserDB \<Rightarrow> bool" where
  "insert_user_ok s u \<longleftrightarrow>
     list_all (\<lambda>x. user_id x \<noteq> user_id u \<and> username x \<noteq> username u \<and> email x \<noteq> email u)
       (users s)"

definition register :: "env \<Rightarrow> string \<Rightarrow> UserCreate \<Rightarrow> state \<Rightarrow> User result" where
  "register e uuid user s =
     (case get_user_by_email s (uc_email user) of
        Some db_user \<Rightarrow>
          (Inl (HTTPException 400 ''This email has already registered'' []), [])
      | None \<Rightarrow>
          if uc_password user \<noteq> uc_confirmed_password user then
            (Inl (HTTPException 404 ''This confirmed password does not match'' []), [])
          else
            let db_user = \<lparr>user_id = uuid, username = uc_username user,
                            email = uc_email user,
                            hashed_password = pwd_hash e (uc_password user),
                            user_created_at = now e\<rparr> in
            if \<not> commit_ok e then (Inl (Unhandled ''SQLAlchemyError''), [])
            else if \<not> insert_user_ok s db_user then
              (Inl (Unhandled ''IntegrityError''), [])
            else
              (Inr \<lparr>u_id = user_id db_user, u_username = username db_user,
                     u_email = email db_user, u_created_at = user_created_at db_user\<rparr>,
               [DbAddUser db_user]))"

text \<open>\<^verbatim>\<open>POST /login\<close>\<close>

definition login :: "env \<Rightarrow> UserLogin \<Rightarrow> state \<Rightarrow> Token result" where
  "login e user s =
     (case get_user_by_email s (ul_email user) of
        None \<Rightarrow>
          (Inl (HTTPException 401 ''Incorrect Email or password'' www_authenticate), [])
      | Some db_user \<Rightarrow>
          if \<not> pwd_verify e (ul_password user) (hashed_password db_user) then
            (Inl (HTTPException 401 ''Incorrect Email or password'' www_authenticate), [])
          else (Inr (token_pair e (ul_email user)), []))"

text \<open>\<^verbatim>\<open>POST /access-token\<close>: the same body as login under another path.\<close>

definition get_access_token :: "env \<Rightarrow> UserLogin \<Rightarrow> state \<Rightarrow> Token result" where
  "get_access_token e user s =
     (case get_user_by_email s (ul_email user) of
        None \<Rightarrow>
          (Inl (HTTPException 401 ''Incorrect Email or password'' www_authenticate), [])
      | Some db_user \<Rightarrow>
          if \<not> pwd_verify e (ul_password user) (hashed_password db_user) then
            (Inl (HTTPException 401 ''Incorrect Email or password'' www_authenticate), [])
          else (Inr (token_pair e (ul_email user)), []))"

text \<open>\<^verbatim>\<open>POST /refresh-token\<close>\<close>

definition refresh_token :: "env \<Rightarrow> token \<Rightarrow> state \<Rightarrow> Token result" where
  "refresh_token e token_data s =
     (case jwt_decode token_data SECRET_KEY (now e) of
        Inl ExpiredSignatureError \<Rightarrow>
          (Inl (HTTPException 401 ''Refresh token expired'' www_authenticate), [])
      | Inl PyJWTError \<Rightarrow>
          (Inl (HTTPException 401 ''Could not validate refresh token'' www_authenticate), [])
      | Inr payload \<Rightarrow>
          if cl_type payload \<noteq> Some ''refresh'' then
            (Inl (HTTPException 401 ''Invalid token type'' www_authenticate), [])
          else
            (case cl_sub payload of
               None \<Rightarrow>
                 (Inl (HTTPException 401 ''Could not validate credentials'' www_authenticate),
                  [])
             | Some addr \<Rightarrow>
                 (case get_user_by_email s addr of
                    None \<Rightarrow> (Inl (HTTPException 401 ''User not found'' []), [])
                  | Some user \<Rightarrow> (Inr (token_pair e addr), []))))"

section \<open>Car endpoints\<close>

text \<open>
  Building the response model \<^verbatim>\<open>Car(...)\<close> from a row: pydantic raises a
  \<^verbatim>\<open>ValidationError\<close> when a field that is not \<^verbatim>\<open>Optional\<close> is \<^verbatim>\<open>None\<close>.
\<close>

definition required_present :: "CarDB \<Rightarrow> bool" where
  "required_present c \<longleftrightarrow>
     car_make c \<noteq> None \<and> model c \<noteq> None \<and> year c \<noteq> None \<and> price c \<noteq> None \<and>
     mileage c \<noteq> None \<and> color c \<noteq> None \<and> fuel_type c \<noteq> None \<and>
     transmission c \<noteq> None \<and> car_image c \<noteq> None \<and> is_sold c \<noteq> None"

definition to_Car :: "CarDB \<Rightarrow> Car option" where
  "to_Car c =
     (if required_present c then
        Some \<lparr>c_id = car_id c, c_make = the (car_make c), c_model = the (model c),
              c_year = the (year c), c_price = the (price c), c_mileage = the (mileage c),
              c_description = description c, c_color = the (color c),
              c_fuel_type = the (fuel_type c), c_transmission = the (transmission c),
              c_seller_id = seller_id c, c_created_at = created_at c,
              c_image = the (car_image c), c_is_sold = the (is_sold c)\<rparr>
      else None)"

definition get_car_row :: "state \<Rightarrow> string \<Rightarrow> CarDB option" where
  "get_car_row s cid = find (\<lambda>c. car_id c = cid) (cars s)"

text \<open>\<^verbatim>\<open>for field, value in update_data.items(): setattr(car, field, value)\<close>\<close>

fun set_field :: "'a field \<Rightarrow> 'a option \<Rightarrow> 'a option" where
  "set_field Unset old = old"
| "set_field (Provided v) old = v"

definition apply_update :: "CarUpdate \<Rightarrow> CarDB \<Rightarrow> CarDB" where
  "apply_update u car =
     car\<lparr>car_make := set_field (cu_make u) (car_make car),
         model := set_field (cu_model u) (model car),
         year := set_field (cu_year u) (year car),
         price := set_field (cu_price u) (price car),
         mileage := set_field (cu_mileage u) (mileage car),
         description := set_field (cu_description u) (description car),
         color := set_field (cu_color u) (color car),
         fuel_type := set_field (cu_fuel_type u) (fuel_type car),
         transmission := set_field (cu_transmission u) (transmission car),
         car_image := set_field (cu_image u) (car_image car),
         is_sold := set_field (cu_is_sold u) (is_sold car)\<rparr>"

text \<open>\<^verbatim>\<open>PUT /cars/{car_id}\<close>\<close>

definition update_car :: "env \<Rightarrow> string \<Rightarrow> CarUpdate \<Rightarrow> UserDB \<Rightarrow> state \<Rightarrow> Car result" where
  "update_car e cid car_update current_user s =
     (case get_car_row s cid of
        None \<Rightarrow> (Inl (HTTPException 404 ''Car not found'' []), [])
      | Some car \<Rightarrow>
          if seller_id car \<noteq> user_id current_user then
            (Inl (HTTPException 403 ''Not authorized to update this car'' []), [])
          else
            let car' = apply_update car_update car in
            if \<not> commit_ok e then (Inl (Unhandled ''SQLAlchemyError''), [])
            else
              (case to_Car car' of
                 None \<Rightarrow> (Inl (Unhandled ''ValidationError''), [DbUpdateCar car'])
               | Some r \<Rightarrow> (Inr r, [DbUpdateCar car'])))"

text \<open>\<^verbatim>\<open>DELETE /cars/{car_id}\<close>\<close>

definition delete_car :: "env \<Rightarrow> string \<Rightarrow> UserDB \<Rightarrow> state \<Rightarrow> string result" where
  "delete_car e cid current_user s =
     (case get_car_row s cid of
        None \<Rightarrow> (Inl (HTTPException 404 ''Car not found'' []), [])
      | Some car \<Rightarrow>
          if seller_id car \<noteq> user_id current_user then
            (Inl (HTTPException 403 ''Not authorized to delete this car'' []), [])
          else if \<not> commit_ok e then (Inl (Unhandled ''SQLAlchemyError''), [])
          else (Inr ''Car deleted successfully'', [DbDeleteCar cid]))"

text \<open>\<^verbatim>\<open>POST /cars\<close>. The primary key makes a commit that repeats an id fail.\<close>

definition create_car :: "env \<Rightarrow> string \<Rightarrow> CarCreate \<Rightarrow> UserDB \<Rightarrow> state \<Rightarrow> Car result" where
  "create_car e uuid car current_user s =
     (let db_car = \<lparr>car_id = uuid, car_make = Some (cc_make car), model = Some (cc_model car),
                     year = Some (cc_year car), price = Some (cc_price car),
                     mileage = Some (cc_mileage car), description = cc_description car,
                     color = Some (cc_color car), fuel_type = Some (cc_fuel_type car),
                     transmission = Some (cc_transmission car),
                     car_image = Some (cc_image car), seller_id = user_id current_user,
                     created_at = now e, is_sold = Some False\<rparr> in
      if \<not> commit_ok e then (Inl (Unhandled ''SQLAlchemyError''), [])
      else if get_car_row s uuid \<noteq> None then (Inl (Unhandled ''IntegrityError''), [])
      else
        (case to_Car db_car of
           None \<Rightarrow> (Inl (Unhandled ''ValidationError''), [DbAddCar db_car])
         | Some r \<Rightarrow> (Inr r, [DbAddCar db_car])))"

section \<open>Image uploads\<close>

definition allowed_types :: "string list" where
  "allowed_types = [''image/jpeg'', ''image/jpg'', ''image/png'', ''image/webp'']"

definition max_size :: nat where
  "max_size = 5 * 1024 * 1024"

text \<open>
  The two validations every upload handler starts with, in the source's order: the
  content type, then the size of the payload read. \<^verbatim>\<open>None\<close> when both pass.
\<close>

definition check_upload :: "UploadFile \<Rightarrow> error option" where
  "check_upload file =
     (if content_type file \<notin> set allowed_types then
        Some (HTTPException 400
          ''Invalid file type. Only JPEG, PNG, and WebP images are allowed.'' [])
      else if length (contents file) > max_size then
        Some (HTTPException 400 ''File too large. Maximum size is 5MB.'' [])
      else None)"

text \<open>
  \<^verbatim>\<open>Path(file.filename).suffix\<close>. The name of a path is its last component that is
  neither empty nor a single dot; the suffix starts at the last dot of the name, unless
  that dot is the first or the last character. Strings are UTF-8 bytes, in which the
  bytes of \<^verbatim>\<open>/\<close> and \<^verbatim>\<open>.\<close> occur only as these characters.
\<close>

fun split_on :: "char \<Rightarrow> string \<Rightarrow> string list" where
  "split_on sep [] = [[]]"
| "split_on sep (c # cs) =
     (if c = sep then [] # split_on sep cs
      else (case split_on sep cs of
              [] \<Rightarrow> [[c]]
            | p # ps \<Rightarrow> (c # p) # ps))"

definition path_name :: "string \<Rightarrow> string" where
  "path_name p =
     (case filter (\<lambda>x. x \<noteq> [] \<and> x \<noteq> ''.'') (split_on CHR ''/'' p) of
        [] \<Rightarrow> []
      | x # xs \<Rightarrow> last (x # xs))"

fun rfind :: "char \<Rightarrow> string \<Rightarrow> nat option" where
  "rfind ch [] = None"
| "rfind ch (c # cs) =
     (case rfind ch cs of
        Some i \<Rightarrow> Some (Suc i)
      | None \<Rightarrow> if c = ch then Some 0 else None)"

definition path_suffix :: "string \<Rightarrow> string" where
  "path_suffix p =
     (let name = path_name p in
      case rfind CHR ''.'' name of
        None \<Rightarrow> []
      | Some i \<Rightarrow> if 0 < i \<and> i + 1 < length name then drop i name else [])"

text \<open>
  \<^verbatim>\<open>file_extension = Path(file.filename).suffix.lower()\<close>, replaced by
  \<^verbatim>\<open>".jpg"\<close> when it is empty.
\<close>

definition file_extension :: "env \<Rightarrow> UploadFile \<Rightarrow> string" where
  "file_extension e file =
     (let ext = str_lower e (path_suffix (filename file)) in
      if ext = [] then ''.jpg'' else ext)"

text \<open>\<^verbatim>\<open>f"{uuid.uuid4()}{file_extension}"\<close>, the UUID drawn by the environment.\<close>

definition unique_filename :: "env \<Rightarrow> string \<Rightarrow> UploadFile \<Rightarrow> string" where
  "unique_filename e uuid file = uuid @ file_extension e file"

definition image_url :: "string \<Rightarrow> string" where
  "image_url name = ''/uploads/'' @ name"

text \<open>\<^verbatim>\<open>POST /upload\<close>\<close>

definition upload_car_image :: "env \<Rightarrow> string \<Rightarrow> UploadFile \<Rightarrow> UserDB \<Rightarrow> state \<Rightarrow> UploadResponse result" where
  "upload_car_image e uuid file current_user s =
     (case check_upload file of
        Some err \<Rightarrow> (Inl err, [])
      | None \<Rightarrow>
          let name = unique_filename e uuid file in
          if \<not> write_ok e then (Inl (HTTPException 500 ''Failed to save file'' []), [])
          else
            (Inr \<lparr>ur_filename = name, ur_url = image_url name,
                   ur_message = ''Image uploaded successfully''\<rparr>,
             [FileWrite name (contents file)]))"

text \<open>\<^verbatim>\<open>DELETE /upload/{filename}\<close>\<close>

definition delete_car_image :: "env \<Rightarrow> string \<Rightarrow> UserDB \<Rightarrow> state \<Rightarrow> string result" where
  "delete_car_image e name current_user s =
     (if files s name = None then (Inl (HTTPException 404 ''Image not found'' []), [])
      else if \<not> unlink_ok e then (Inl (HTTPException 500 ''Failed to delete file'' []), [])
      else (Inr (''Image '' @ name @ '' deleted successfully''), [FileUnlink name]))"

text \<open>
  The \<^verbatim>\<open>except Exception\<close> blocks of the two handlers that store a file and a row:
  after the effects \<open>evs\<close>, unlink the new file if it exists, then raise status 500. An
  unlink that fails inside the \<^verbatim>\<open>except\<close> block escapes the handler.
\<close>

definition cleanup_file :: "env \<Rightarrow> state \<Rightarrow> event list \<Rightarrow> string \<Rightarrow> string \<Rightarrow> 'a result" where
  "cleanup_file e s evs name detail =
     (if files (exec s evs) name \<noteq> None then
        (if unlink_ok e then (Inl (HTTPException 500 detail []), evs @ [FileUnlink name])
         else (Inl (Unhandled ''OSError''), evs))
      else (Inl (HTTPException 500 detail []), evs))"

text \<open>\<^verbatim>\<open>POST /cars/upload\<close>: the form fields and the file.\<close>

record NewCarForm =
  nf_make :: string
  nf_model :: string
  nf_year :: int
  nf_price :: real
  nf_mileage :: int
  nf_color :: string
  nf_fuel_type :: string
  nf_transmission :: string
  nf_description :: "string option"

definition upload_car_with_image ::
    "env \<Rightarrow> string \<Rightarrow> string \<Rightarrow> NewCarForm \<Rightarrow> UploadFile \<Rightarrow> UserDB \<Rightarrow> state \<Rightarrow> Car result" where
  "upload_car_with_image e uuid_file uuid_car form file current_user s =
     (case check_upload file of
        Some err \<Rightarrow> (Inl err, [])
      | None \<Rightarrow>
          let name = unique_filename e uuid_file file;
              failed = (\<lambda>evs. cleanup_file e s evs name ''Failed to create car'') in
          if \<not> write_ok e then failed []
          else
            let evs1 = [FileWrite name (contents file)];
                db_car = \<lparr>car_id = uuid_car, car_make = Some (nf_make form),
                           model = Some (nf_model form), year = Some (nf_year form),
                           price = Some (nf_price form), mileage = Some (nf_mileage form),
                           description = nf_description form, color = Some (nf_color form),
                           fuel_type = Some (nf_fuel_type form),
                           transmission = Some (nf_transmission form),
                           car_image = Some (image_url name),
                           seller_id = user_id current_user, created_at = now e,
                           is_sold = Some False\<rparr> in
            if \<not> commit_ok e then failed evs1
            else if get_car_row s uuid_car \<noteq> None then failed evs1
            else
              (case to_Car db_car of
                 None \<Rightarrow> failed (evs1 @ [DbAddCar db_car])
               | Some r \<Rightarrow> (Inr r, evs1 @ [DbAddCar db_car])))"

text \<open>
  \<^verbatim>\<open>PUT /cars/{car_id}/upload\<close>. The old image is remembered for cleanup only when
  the row's image starts with \<^verbatim>\<open>/uploads/\<close>; its file name is the image with every
  occurrence of \<^verbatim>\<open>/uploads/\<close> removed (\<^verbatim>\<open>str.replace\<close>).
\<close>

fun remove_uploads :: "string \<Rightarrow> string" where
  "remove_uploads [] = []"
| "remove_uploads (c # cs) =
     (if take 9 (c # cs) = ''/uploads/'' then remove_uploads (drop 8 cs)
      else c # remove_uploads cs)"

definition old_image_name :: "CarDB \<Rightarrow> string option" where
  "old_image_name car =
     (case car_image car of
        None \<Rightarrow> None
      | Some img \<Rightarrow>
          if img \<noteq> [] \<and> take 9 img = ''/uploads/'' then Some (remove_uploads img)
          else None)"

text \<open>\<^verbatim>\<open>if value is not None: setattr(car, field, value)\<close>\<close>

fun set_present :: "'a option \<Rightarrow> 'a option \<Rightarrow> 'a option" where
  "set_present None old = old"
| "set_present (Some v) old = Some v"

definition apply_form :: "CarForm \<Rightarrow> string option \<Rightarrow> CarDB \<Rightarrow> CarDB" where
  "apply_form form url car =
     car\<lparr>car_make := set_present (cf_make form) (car_make car),
         model := set_present (cf_model form) (model car),
         year := set_present (cf_year form) (year car),
         price := set_present (cf_price form) (price car),
         mileage := set_present (cf_mileage form) (mileage car),
         color := set_present (cf_color form) (color car),
         fuel_type := set_present (cf_fuel_type form) (fuel_type car),
         transmission := set_present (cf_transmission form) (transmission car),
         description := set_present (cf_description form) (description car),
         is_sold := set_present (cf_is_sold form) (is_sold car),
         car_image := set_present url (car_image car)\<rparr>"

text \<open>
  The second half of the handler, from "Update car fields" on: \<open>url\<close> is
  \<^verbatim>\<open>image_url\<close>, \<open>old\<close> is \<^verbatim>\<open>old_image_path\<close>, \<open>new\<close> the name of the file just
  written (if a file was sent) and \<open>evs\<close> the effects so far. Everything after the
  assignment of the fields runs inside one \<^verbatim>\<open>try\<close>, whose \<^verbatim>\<open>except Exception\<close>
  unlinks the new file.
\<close>

definition commit_update ::
    "env \<Rightarrow> state \<Rightarrow> CarDB \<Rightarrow> CarForm \<Rightarrow> string option \<Rightarrow> string option \<Rightarrow> string option \<Rightarrow>
     event list \<Rightarrow> Car result" where
  "commit_update e s car form url old new evs =
     (let car' = apply_form form url car;
          failed = (\<lambda>evs'. case new of
                       Some name \<Rightarrow> cleanup_file e s evs' name ''Failed to update car''
                     | None \<Rightarrow> (Inl (HTTPException 500 ''Failed to update car'' []), evs'));
          respond = (\<lambda>evs'. case to_Car car' of
                       None \<Rightarrow> failed evs'
                     | Some r \<Rightarrow> (Inr r, evs')) in
      if \<not> commit_ok e then failed evs
      else
        let evs2 = evs @ [DbUpdateCar car'] in
        (case old of
           None \<Rightarrow> respond evs2
         | Some old_name \<Rightarrow>
             if files (exec s evs2) old_name \<noteq> None then
               (if unlink_ok e then respond (evs2 @ [FileUnlink old_name]) else failed evs2)
             else respond evs2))"

definition update_car_with_image ::
    "env \<Rightarrow> string \<Rightarrow> string \<Rightarrow> CarForm \<Rightarrow> UploadFile option \<Rightarrow> UserDB \<Rightarrow> state \<Rightarrow> Car result" where
  "update_car_with_image e uuid cid form file current_user s =
     (case get_car_row s cid of
        None \<Rightarrow> (Inl (HTTPException 404 ''Car not found'' []), [])
      | Some car \<Rightarrow>
          if seller_id car \<noteq> user_id current_user then
            (Inl (HTTPException 403 ''Not authorized to update this car'' []), [])
          else
            (case file of
               None \<Rightarrow> commit_update e s car form (car_image car) None None []
             | Some f \<Rightarrow>
                 (case check_upload f of
                    Some err \<Rightarrow> (Inl err, [])
                  | None \<Rightarrow>
                      let name = unique_filename e uuid f in
                      if \<not> write_ok e then
                        (Inl (HTTPException 500 ''Failed to save file'' []), [])
                      else
                        commit_update e s car form (Some (image_url name))
                          (old_image_name car) (Some name)
                          [FileWrite name (contents f)])))"

section \<open>Sequences of requests\<close>

text \<open>
  The requests that create, change or remove a listing, each with the UUIDs drawn while
  it is served and the user its bearer token resolved to.
\<close>

datatype request =
    CreateCar string CarCreate UserDB
  | UploadCar string string NewCarForm UploadFile UserDB
  | UpdateCar string CarUpdate UserDB
  | UpdateCarUpload string string CarForm "UploadFile option" UserDB
  | DeleteCar string UserDB

fun effects :: "env \<Rightarrow> request \<Rightarrow> state \<Rightarrow> event list" where
  "effects e (CreateCar uuid car u) s = snd (create_car e uuid car u s)"
| "effects e (UploadCar uuid_file uuid_car form file u) s =
     snd (upload_car_with_image e uuid_file uuid_car form file u s)"
| "effects e (UpdateCar cid upd u) s = snd (update_car e cid upd u s)"
| "effects e (UpdateCarUpload uuid cid form file u) s =
     snd (update_car_with_image e uuid cid form file u s)"
| "effects e (DeleteCar cid u) s = snd (delete_car e cid u s)"

fun run :: "state \<Rightarrow> (env \<times> request) list \<Rightarrow> state" where
  "run s [] = s"
| "run s ((e, r) # rs) = run (exec s (effects e r s)) rs"

text \<open>A listing whose price and mileage are both present and not negative.\<close>

definition nonneg_car :: "CarDB \<Rightarrow> bool" where
  "nonneg_car c \<longleftrightarrow>
     (case price c of None \<Rightarrow> False | Some p \<Rightarrow> 0 \<le> p) \<and>
     (case mileage c of None \<Rightarrow> False | Some m \<Rightarrow> 0 \<le> m)"

text \<open>A request that, where it names a price or a mileage, names one that is not negative.\<close>

fun nonneg_field :: "('a::linordered_idom) field \<Rightarrow> bool" where
  "nonneg_field Unset = True"
| "nonneg_field (Provided None) = False"
| "nonneg_field (Provided (Some v)) = (0 \<le> v)"

fun nonneg_opt :: "('a::linordered_idom) option \<Rightarrow> bool" where
  "nonneg_opt None = True"
| "nonneg_opt (Some v) = (0 \<le> v)"

fun nonneg_request :: "request \<Rightarrow> bool" where
  "nonneg_request (CreateCar uuid car u) = (0 \<le> cc_price car \<and> 0 \<le> cc_mileage car)"
| "nonneg_request (UploadCar uuid_file uuid_car form file u) =
     (0 \<le> nf_price form \<and> 0 \<le> nf_mileage form)"
| "nonneg_request (UpdateCar cid upd u) =
     (nonneg_field (cu_price upd) \<and> nonneg_field (cu_mileage upd))"
| "nonneg_request (UpdateCarUpload uuid cid form file u) =
     (nonneg_opt (cf_price form) \<and> nonneg_opt (cf_mileage form))"
| "nonneg_request (DeleteCar cid u) = True"

text \<open>The \<^verbatim>\<open>type\<close> claim a token carries, whatever its signature and expiry.\<close>

fun token_type :: "token \<Rightarrow> string option" where
  "token_type (Jwt key payload) = cl_type payload"
| "token_type (NotJwt raw) = None"

section \<open>A small marketplace\<close>

text \<open>Concrete values on which the theorems below are instantiated.\<close>

text \<open>
  On a string of ASCII characters \<^verbatim>\<open>str.lower\<close> maps the letters A to Z to a to z and
  leaves every other character as it is. The examples below use ASCII names only.
\<close>

definition ascii_lower_char :: "char \<Rightarrow> char" where
  "ascii_lower_char c =
     (let n = of_char c :: nat in if 65 \<le> n \<and> n \<le> 90 then char_of (n + 32) else c)"

definition ascii_lower :: "string \<Rightarrow> string" where
  "ascii_lower s = map ascii_lower_char s"

definition env0 :: env where
  "env0 = \<lparr>now = 1000, pwd_hash = (\<lambda>p. ''h:'' @ p), pwd_verify = (\<lambda>p h. h = ''h:'' @ p),
            str_lower = ascii_lower, write_ok = True, commit_ok = True, unlink_ok = True\<rparr>"

definition alice :: UserDB where
  "alice = \<lparr>user_id = ''u1'', username = ''alice'', email = ''a@x.com'',
             hashed_password = ''h:pw'', user_created_at = 0\<rparr>"

definition bob :: UserDB where
  "bob = \<lparr>user_id = ''u2'', username = ''bob'', email = ''b@x.com'',
           hashed_password = ''h:pw2'', user_created_at = 1\<rparr>"

definition camry :: CarDB where
  "camry = \<lparr>car_id = ''c1'', car_make = Some ''Toyota'', model = Some ''Camry'',
             year = Some 2020, price = Some 25000, mileage = Some 30000, description = None,
             color = Some ''Silver'', fuel_type = Some ''Gasoline'',
             transmission = Some ''Automatic'', car_image = Some ''/uploads/old.jpg'',
             seller_id = ''u1'', created_at = 5, is_sold = Some False\<rparr>"

definition shop :: state where
  "shop = \<lparr>users = [alice, bob], cars = [camry], files = [''old.jpg'' \<mapsto> [1, 2, 3]]\<rparr>"

definition no_update :: CarUpdate where
  "no_update = \<lparr>cu_make = Unset, cu_model = Unset, cu_year = Unset, cu_price = Unset,
                 cu_mileage = Unset, cu_description = Unset, cu_color = Unset,
                 cu_fuel_type = Unset, cu_transmission = Unset, cu_image = Unset,
                 cu_is_sold = Unset\<rparr>"

definition no_form :: CarForm where
  "no_form = \<lparr>cf_make = None, cf_model = None, cf_year = None, cf_price = None,
               cf_mileage = None, cf_color = None, cf_fuel_type = None,
               cf_transmission = None, cf_description = None, cf_is_sold = None\<rparr>"

definition photo :: UploadFile where
  "photo = \<lparr>filename = ''Front.PNG'', content_type = ''image/png'', contents = [7, 8]\<rparr>"

definition alice_refresh :: token where
  "alice_refresh = tk_refresh_token (token_pair env0 ''a@x.com'')"

definition alice_access :: token where
  "alice_access = tk_access_token (token_pair env0 ''a@x.com'')"

text \<open>A correctly signed token that carries a subject and no type claim.\<close>

definition untyped :: token where
  "untyped = jwt_encode \<lparr>cl_sub = Some ''a@x.com'', cl_type = None, cl_exp = None\<rparr> SECRET_KEY"

definition carol :: UserCreate where
  "carol = \<lparr>uc_username = ''carol'', uc_email = ''c@x.com'', uc_password = ''pw'',
             uc_confirmed_password = ''pW''\<rparr>"

definition gif :: UploadFile where
  "gif = \<lparr>filename = ''anim.gif'', content_type = ''image/gif'', contents = [1]\<rparr>"

definition huge :: UploadFile where
  "huge = \<lparr>filename = ''big.jpg'', content_type = ''image/jpeg'',
            contents = replicate 5242881 0\<rparr>"

definition null_make :: CarUpdate where
  "null_make = no_update\<lparr>cu_make := Provided None\<rparr>"

definition shop1 :: state where
  "shop1 = exec shop (snd (update_car env0 ''c1'' null_make alice shop))"

definition shop2 :: state where
  "shop2 = exec shop1 (snd (update_car_with_image env0 ''n1'' ''c1'' no_form (Some photo) alice shop1))"

definition civic_form :: NewCarForm where
  "civic_form = \<lparr>nf_make = ''Honda'', nf_model = ''Civic'', nf_year = 2019, nf_price = 18000,
                  nf_mileage = 42000, nf_color = ''Blue'', nf_fuel_type = ''Gasoline'',
                  nf_transmission = ''Manual'', nf_description = None\<rparr>"

definition noext :: UploadFile where
  "noext = \<lparr>filename = ''photo'', content_type = ''image/webp'', contents = [9]\<rparr>"

definition huge_gif :: UploadFile where
  "huge_gif = \<lparr>filename = ''big.gif'', content_type = ''image/gif'',
                contents = replicate 5242881 0\<rparr>"

definition civic :: CarCreate where
  "civic = \<lparr>cc_make = ''Honda'', cc_model = ''Civic'', cc_year = 2019, cc_price = 18000,
             cc_mileage = 42000, cc_description = None, cc_color = ''Blue'',
             cc_fuel_type = ''Gasoline'', cc_transmission = ''Manual'',
             cc_image = ''/uploads/civic.jpg''\<rparr>"

definition lemon :: CarCreate where
  "lemon = civic\<lparr>cc_price := - 1, cc_mileage := - 5\<rparr>"

definition slash :: CarUpdate where
  "slash = no_update\<lparr>cu_price := Provided (Some (- 1))\<rparr>"

definition requests :: "(env \<times> request) list" where
  "requests =
     [(env0, CreateCar ''c2'' civic bob),
      (env0, UpdateCar ''c1'' (no_update\<lparr>cu_price := Provided (Some 24000)\<rparr>) alice),
      (env0, UpdateCarUpload ''n1'' ''c1'' (no_form\<lparr>cf_mileage := Some 31000\<rparr>)
         (Some photo) alice),
      (env0, UploadCar ''n2'' ''c3'' civic_form photo bob),
      (env0, DeleteCar ''c2'' bob)]"

section \<open>Properties\<close>

lemma exec_Nil: "exec s [] = s"
  by (simp add: exec_def)

lemma get_car_row_shop: "get_car_row shop ''c1'' = Some camry"
  by (simp add: get_car_row_def shop_def camry_def)

lemma alice_refresh_eq:
  "alice_refresh =
     Jwt SECRET_KEY \<lparr>cl_sub = Some ''a@x.com'', cl_type = Some ''refresh'', cl_exp = Some 87400\<rparr>"
  by (simp add: alice_refresh_def token_pair_def create_refresh_token_def jwt_encode_def
      env0_def REFRESH_TOKEN_EXPIRE_DAYS_def)

lemma alice_access_eq:
  "alice_access =
     Jwt SECRET_KEY \<lparr>cl_sub = Some ''a@x.com'', cl_type = Some ''access'', cl_exp = Some 1600\<rparr>"
  by (simp add: alice_access_def token_pair_def create_access_token_def jwt_encode_def
      env0_def ACCESS_TOKEN_EXPIRE_MINUTES_def)

subsection \<open>Deleting a listing\<close>

text \<open>
  C1, as the code has it. When the owner deletes a listing and the commit succeeds, the
  only effect is the removal of the row: the listing is gone afterwards and the upload
  directory is exactly as before. No image file is unlinked.
\<close>

theorem delete_car_owner:
  assumes "get_car_row s cid = Some L" and "seller_id L = user_id U" and "commit_ok e"
  shows "delete_car e cid U s = (Inr ''Car deleted successfully'', [DbDeleteCar cid]) \<and>
         get_car_row (exec s (snd (delete_car e cid U s))) cid = None \<and>
         files (exec s (snd (delete_car e cid U s))) = files s"
  using assms
  by (simp add: delete_car_def exec_def get_car_row_def find_None_iff)

theorem delete_car_owner_witness:
  "get_car_row shop ''c1'' = Some camry \<and> seller_id camry = user_id alice \<and> commit_ok env0 \<and>
   delete_car env0 ''c1'' alice shop = (Inr ''Car deleted successfully'', [DbDeleteCar ''c1'']) \<and>
   get_car_row (exec shop (snd (delete_car env0 ''c1'' alice shop))) ''c1'' = None \<and>
   files (exec shop (snd (delete_car env0 ''c1'' alice shop))) = files shop"
proof -
  have b: "seller_id camry = user_id alice"
    by (simp add: camry_def alice_def)
  have c: "commit_ok env0"
    by (simp add: env0_def)
  from delete_car_owner [OF get_car_row_shop b c] get_car_row_shop b c
  show ?thesis by blast
qed

text \<open>
  C1, as the specification states it, fails: Alice deletes her own listing, whose image
  is \<^verbatim>\<open>/uploads/old.jpg\<close>; the call succeeds, no unlink is among its effects, and the
  file is still stored afterwards.
\<close>

theorem delete_car_keeps_image_counterexample:
  "get_car_row shop ''c1'' = Some camry \<and> seller_id camry = user_id alice \<and>
   car_image camry = Some (image_url ''old.jpg'') \<and>
   delete_car env0 ''c1'' alice shop = (Inr ''Car deleted successfully'', [DbDeleteCar ''c1'']) \<and>
   FileUnlink ''old.jpg'' \<notin> set (snd (delete_car env0 ''c1'' alice shop)) \<and>
   files (exec shop (snd (delete_car env0 ''c1'' alice shop))) ''old.jpg'' = Some [1, 2, 3]"
  by (simp add: delete_car_def get_car_row_def shop_def camry_def alice_def env0_def
      exec_def image_url_def)

subsection \<open>Ownership\<close>

text \<open>
  C2. When the acting user is not the seller of the listing stored under the id, each
  of update, update with image and delete raises status 403 and has no effect at all:
  the state after the call is the state before it, and the listing is still the same row.
\<close>

theorem non_owner_forbidden:
  assumes "get_car_row s cid = Some L" and "seller_id L \<noteq> user_id U"
  shows "update_car e cid upd U s =
           (Inl (HTTPException 403 ''Not authorized to update this car'' []), []) \<and>
         update_car_with_image e uuid cid form file U s =
           (Inl (HTTPException 403 ''Not authorized to update this car'' []), []) \<and>
         delete_car e cid U s =
           (Inl (HTTPException 403 ''Not authorized to delete this car'' []), []) \<and>
         exec s (snd (update_car e cid upd U s)) = s \<and>
         exec s (snd (update_car_with_image e uuid cid form file U s)) = s \<and>
         exec s (snd (delete_car e cid U s)) = s \<and>
         get_car_row (exec s (snd (update_car e cid upd U s))) cid = Some L \<and>
         get_car_row (exec s (snd (delete_car e cid U s))) cid = Some L"
  using assms
  by (simp add: update_car_def update_car_with_image_def delete_car_def exec_def)

theorem non_owner_forbidden_witness:
  "get_car_row shop ''c1'' = Some camry \<and> seller_id camry \<noteq> user_id bob \<and>
   update_car env0 ''c1'' (no_update\<lparr>cu_price := Provided (Some 1)\<rparr>) bob shop =
     (Inl (HTTPException 403 ''Not authorized to update this car'' []), []) \<and>
   update_car_with_image env0 ''n1'' ''c1'' no_form (Some photo) bob shop =
     (Inl (HTTPException 403 ''Not authorized to update this car'' []), []) \<and>
   delete_car env0 ''c1'' bob shop =
     (Inl (HTTPException 403 ''Not authorized to delete this car'' []), []) \<and>
   get_car_row (exec shop (snd (delete_car env0 ''c1'' bob shop))) ''c1'' = Some camry"
proof -
  have b: "seller_id camry \<noteq> user_id bob"
    by (simp add: camry_def bob_def)
  from non_owner_forbidden [OF get_car_row_shop b, of env0
      "no_update\<lparr>cu_price := Provided (Some 1)\<rparr>" "''n1''" no_form "Some photo"]
    get_car_row_shop b
  show ?thesis by blast
qed

subsection \<open>Token types\<close>

text \<open>
  C3, as the code has it. A token whose type claim is anything other than
  \<^verbatim>\<open>access\<close> (a refresh token, a token of some other type, a token with no type
  claim) is always rejected by the access-token check with status 401, and a token
  whose type claim is anything other than \<^verbatim>\<open>refresh\<close> is always rejected by the
  refresh endpoint with status 401 and no effect. Decoding comes first: the error is
  "Invalid token type" when the token decodes (its signature is valid and it has not
  expired), the expiry error when it has expired, and the validation error when it does
  not decode otherwise.
\<close>

theorem wrong_token_type_rejected:
  "(token_type tok \<noteq> Some ''access'' \<longrightarrow>
      (\<exists>detail. verify_token e tok = Inl (HTTPException 401 detail www_authenticate)) \<and>
      (\<forall>payload. jwt_decode tok SECRET_KEY (now e) = Inr payload \<longrightarrow>
         verify_token e tok =
           Inl (HTTPException 401 ''Invalid token type'' www_authenticate)) \<and>
      (jwt_decode tok SECRET_KEY (now e) = Inl ExpiredSignatureError \<longrightarrow>
         verify_token e tok = Inl (HTTPException 401 ''Token expired'' www_authenticate)) \<and>
      (jwt_decode tok SECRET_KEY (now e) = Inl PyJWTError \<longrightarrow>
         verify_token e tok =
           Inl (HTTPException 401 ''Could not validate credentials'' www_authenticate))) \<and>
   (token_type tok \<noteq> Some ''refresh'' \<longrightarrow>
      (\<exists>detail. refresh_token e tok s =
         (Inl (HTTPException 401 detail www_authenticate), [])) \<and>
      (\<forall>payload. jwt_decode tok SECRET_KEY (now e) = Inr payload \<longrightarrow>
         refresh_token e tok s =
           (Inl (HTTPException 401 ''Invalid token type'' www_authenticate), [])) \<and>
      (jwt_decode tok SECRET_KEY (now e) = Inl ExpiredSignatureError \<longrightarrow>
         refresh_token e tok s =
           (Inl (HTTPException 401 ''Refresh token expired'' www_authenticate), [])) \<and>
      (jwt_decode tok SECRET_KEY (now e) = Inl PyJWTError \<longrightarrow>
         refresh_token e tok s =
           (Inl (HTTPException 401 ''Could not validate refresh token'' www_authenticate),
            [])))"
proof (cases tok)
  case (Jwt key payload)
  then show ?thesis
    by (auto simp add: verify_token_def refresh_token_def split: option.splits)
next
  case (NotJwt raw)
  then show ?thesis
    by (simp add: verify_token_def refresh_token_def)
qed

theorem wrong_token_type_rejected_witness:
  "token_type alice_refresh \<noteq> Some ''access'' \<and>
   jwt_decode alice_refresh SECRET_KEY (now env0) =
     Inr \<lparr>cl_sub = Some ''a@x.com'', cl_type = Some ''refresh'', cl_exp = Some 87400\<rparr> \<and>
   verify_token env0 alice_refresh =
     Inl (HTTPException 401 ''Invalid token type'' www_authenticate) \<and>
   token_type alice_access \<noteq> Some ''refresh'' \<and>
   jwt_decode alice_access SECRET_KEY (now env0) =
     Inr \<lparr>cl_sub = Some ''a@x.com'', cl_type = Some ''access'', cl_exp = Some 1600\<rparr> \<and>
   refresh_token env0 alice_access shop =
     (Inl (HTTPException 401 ''Invalid token type'' www_authenticate), []) \<and>
   token_type untyped \<noteq> Some ''access'' \<and>
   jwt_decode untyped SECRET_KEY (now env0) =
     Inr \<lparr>cl_sub = Some ''a@x.com'', cl_type = None, cl_exp = None\<rparr> \<and>
   verify_token env0 untyped =
     Inl (HTTPException 401 ''Invalid token type'' www_authenticate)"
proof -
  have a: "token_type alice_refresh \<noteq> Some ''access''"
    by (simp add: alice_refresh_eq)
  have b: "jwt_decode alice_refresh SECRET_KEY (now env0) =
     Inr \<lparr>cl_sub = Some ''a@x.com'', cl_type = Some ''refresh'', cl_exp = Some 87400\<rparr>"
    by (simp add: alice_refresh_eq env0_def)
  have c: "token_type alice_access \<noteq> Some ''refresh''"
    by (simp add: alice_access_eq)
  have d: "jwt_decode alice_access SECRET_KEY (now env0) =
     Inr \<lparr>cl_sub = Some ''a@x.com'', cl_type = Some ''access'', cl_exp = Some 1600\<rparr>"
    by (simp add: alice_access_eq env0_def)
  have f: "token_type untyped \<noteq> Some ''access''"
    by (simp add: untyped_def jwt_encode_def)
  have g: "jwt_decode untyped SECRET_KEY (now env0) =
     Inr \<lparr>cl_sub = Some ''a@x.com'', cl_type = None, cl_exp = None\<rparr>"
    by (simp add: untyped_def jwt_encode_def)
  from wrong_token_type_rejected [of alice_refresh env0 shop] a b
  have v: "verify_token env0 alice_refresh =
     Inl (HTTPException 401 ''Invalid token type'' www_authenticate)" by blast
  from wrong_token_type_rejected [of alice_access env0 shop] c d
  have r: "refresh_token env0 alice_access shop =
     (Inl (HTTPException 401 ''Invalid token type'' www_authenticate), [])" by blast
  from wrong_token_type_rejected [of untyped env0 shop] f g
  have w: "verify_token env0 untyped =
     Inl (HTTPException 401 ''Invalid token type'' www_authenticate)" by blast
  from a b c d f g v r w show ?thesis by blast
qed

text \<open>
  C3, as the specification states it, fails: the refresh token minted for Alice at time
  1000 and presented to the access-token check at time 90000, after its expiry, is
  rejected as expired and not for its type.
\<close>

theorem expired_refresh_token_counterexample:
  "token_type alice_refresh = Some ''refresh'' \<and>
   verify_token (env0\<lparr>now := 90000\<rparr>) alice_refresh =
     Inl (HTTPException 401 ''Token expired'' www_authenticate) \<and>
   verify_token (env0\<lparr>now := 90000\<rparr>) alice_refresh \<noteq>
     Inl (HTTPException 401 ''Invalid token type'' www_authenticate)"
  by (simp add: alice_refresh_eq verify_token_def env0_def)

subsection \<open>Registration\<close>

text \<open>
  C4. Carol registers with a new email and a confirmation that differs from her
  password: the call fails and stores nothing, but the status raised is 404.
\<close>

theorem register_mismatch_status:
  "register env0 ''u3'' carol shop =
     (Inl (HTTPException 404 ''This confirmed password does not match'' []), []) \<and>
   uc_password carol \<noteq> uc_confirmed_password carol \<and>
   exec shop (snd (register env0 ''u3'' carol shop)) = shop"
  by (simp add: register_def get_user_by_email_def shop_def alice_def bob_def carol_def
      exec_def)

subsection \<open>Login failures\<close>

text \<open>
  C9. A login for an email that no user has and a login for an existing email with a
  password that does not verify raise the very same error, with the same status, detail
  and headers, and neither has an effect; likewise on the access-token path.
\<close>

theorem login_failure_indistinguishable:
  assumes "get_user_by_email s1 (ul_email r1) = None"
    and "get_user_by_email s2 (ul_email r2) = Some u"
    and "\<not> pwd_verify e2 (ul_password r2) (hashed_password u)"
  shows "login e1 r1 s1 = login e2 r2 s2 \<and>
         get_access_token e1 r1 s1 = get_access_token e2 r2 s2 \<and>
         login e1 r1 s1 =
           (Inl (HTTPException 401 ''Incorrect Email or password''
                  [(''WWW-Authenticate'', ''Bearer'')]), []) \<and>
         get_access_token e1 r1 s1 =
           (Inl (HTTPException 401 ''Incorrect Email or password''
                  [(''WWW-Authenticate'', ''Bearer'')]), [])"
  using assms
  by (simp add: login_def get_access_token_def www_authenticate_def)

theorem login_failure_indistinguishable_witness:
  "get_user_by_email shop ''nobody@x.com'' = None \<and>
   get_user_by_email shop ''a@x.com'' = Some alice \<and>
   \<not> pwd_verify env0 ''guess'' (hashed_password alice) \<and>
   login env0 \<lparr>ul_email = ''nobody@x.com'', ul_password = ''pw''\<rparr> shop =
     login env0 \<lparr>ul_email = ''a@x.com'', ul_password = ''guess''\<rparr> shop"
proof -
  have a: "get_user_by_email shop (ul_email \<lparr>ul_email = ''nobody@x.com'', ul_password = ''pw''\<rparr>)
             = None"
    by (simp add: get_user_by_email_def shop_def alice_def bob_def)
  have b: "get_user_by_email shop (ul_email \<lparr>ul_email = ''a@x.com'', ul_password = ''guess''\<rparr>)
             = Some alice"
    by (simp add: get_user_by_email_def shop_def alice_def bob_def)
  have c: "\<not> pwd_verify env0 (ul_password \<lparr>ul_email = ''a@x.com'', ul_password = ''guess''\<rparr>)
             (hashed_password alice)"
    by (simp add: env0_def alice_def)
  from login_failure_indistinguishable [OF a b c, where ?e1.0 = env0] a b c
  show ?thesis by simp
qed

subsection \<open>Deleting an image by name\<close>

text \<open>
  C10. Whoever the authenticated user is, deleting a stored file by name succeeds when
  the unlink does: the only effect is the unlink, the file is gone afterwards and the
  table of listings is untouched, so a listing that referenced the file still does.
\<close>

theorem delete_car_image_any_user:
  assumes "files s name \<noteq> None" and "unlink_ok e"
  shows "delete_car_image e name U s =
           (Inr (''Image '' @ name @ '' deleted successfully''), [FileUnlink name]) \<and>
         files (exec s (snd (delete_car_image e name U s))) name = None \<and>
         cars (exec s (snd (delete_car_image e name U s))) = cars s \<and>
         users (exec s (snd (delete_car_image e name U s))) = users s"
  using assms
  by (simp add: delete_car_image_def exec_def)

theorem delete_car_image_any_user_witness:
  "files shop ''old.jpg'' \<noteq> None \<and> unlink_ok env0 \<and>
   seller_id camry \<noteq> user_id bob \<and> car_image camry = Some (image_url ''old.jpg'') \<and>
   delete_car_image env0 ''old.jpg'' bob shop =
     (Inr ''Image old.jpg deleted successfully'', [FileUnlink ''old.jpg'']) \<and>
   files (exec shop (snd (delete_car_image env0 ''old.jpg'' bob shop))) ''old.jpg'' = None \<and>
   get_car_row (exec shop (snd (delete_car_image env0 ''old.jpg'' bob shop))) ''c1'' =
     Some camry"
proof -
  have a: "files shop ''old.jpg'' \<noteq> None"
    by (simp add: shop_def)
  have b: "unlink_ok env0"
    by (simp add: env0_def)
  have c: "seller_id camry \<noteq> user_id bob \<and> car_image camry = Some (image_url ''old.jpg'')"
    by (simp add: camry_def bob_def image_url_def)
  note t = delete_car_image_any_user [OF a b, of bob]
  from t have "cars (exec shop (snd (delete_car_image env0 ''old.jpg'' bob shop))) = cars shop"
    by blast
  with get_car_row_shop
  have d: "get_car_row (exec shop (snd (delete_car_image env0 ''old.jpg'' bob shop))) ''c1'' =
     Some camry"
    by (simp add: get_car_row_def)
  from t have "delete_car_image env0 ''old.jpg'' bob shop =
     (Inr (''Image '' @ ''old.jpg'' @ '' deleted successfully''), [FileUnlink ''old.jpg''])"
    by blast
  then have f: "delete_car_image env0 ''old.jpg'' bob shop =
     (Inr ''Image old.jpg deleted successfully'', [FileUnlink ''old.jpg''])"
    by simp
  from t a b c d f show ?thesis by blast
qed

subsection \<open>Partial update\<close>

lemma find_car_id: "find (\<lambda>c. car_id c = cid) cs = Some L \<Longrightarrow> car_id L = cid"
  by (induction cs) (simp_all split: if_splits)

lemma find_map_update:
  "find (\<lambda>c. car_id c = car_id L') cs = Some L \<Longrightarrow>
   find (\<lambda>c. car_id c = car_id L') (map (\<lambda>x. if car_id x = car_id L' then L' else x) cs) =
     Some L'"
  by (induction cs) (simp_all split: if_splits)

lemma get_car_row_update:
  assumes "get_car_row s (car_id L') = Some L"
  shows "get_car_row (exec s [DbUpdateCar L']) (car_id L') = Some L'"
  using assms by (simp add: get_car_row_def exec_def find_map_update)

lemma get_car_row_id: "get_car_row s cid = Some L \<Longrightarrow> car_id L = cid"
  unfolding get_car_row_def by (rule find_car_id)

lemma set_field_case: "set_field f old = (case f of Unset \<Rightarrow> old | Provided v \<Rightarrow> v)"
  by (cases f) simp_all

lemma update_car_effects:
  assumes "get_car_row s cid = Some L" and "seller_id L = user_id U" and "commit_ok e"
  shows "snd (update_car e cid u U s) = [DbUpdateCar (apply_update u L)]"
  using assms by (simp add: update_car_def Let_def split: option.splits)

lemma apply_update_price_only:
  "apply_update (no_update\<lparr>cu_price := x\<rparr>) L = L\<lparr>price := set_field x (price L)\<rparr>"
  by (simp add: apply_update_def no_update_def)

lemma update_car_row:
  assumes "get_car_row s cid = Some L" and "seller_id L = user_id U" and "commit_ok e"
  shows "get_car_row (exec s (snd (update_car e cid u U s))) cid = Some (apply_update u L)"
proof -
  have id: "cid = car_id (apply_update u L)"
    using get_car_row_id [OF assms(1)] by (simp add: apply_update_def)
  have "get_car_row s (car_id (apply_update u L)) = Some L"
    using assms(1) id by simp
  then have "get_car_row (exec s [DbUpdateCar (apply_update u L)]) (car_id (apply_update u L)) =
     Some (apply_update u L)"
    by (rule get_car_row_update)
  then have "get_car_row (exec s [DbUpdateCar (apply_update u L)]) cid = Some (apply_update u L)"
    using id by simp
  then show ?thesis
    by (simp only: update_car_effects [OF assms])
qed


text \<open>
  C5. When the owner updates a listing and the commit succeeds, the only effect is the
  update of that row, and the row stored afterwards differs from the one before exactly
  in the fields the request body names: a field the body names takes the value given
  (which may be null), a field it does not name keeps its value, and id, seller and
  creation time are never assigned. In particular a body that names only the price
  changes only the price.
\<close>

theorem update_car_partial:
  assumes "get_car_row s cid = Some L" and "seller_id L = user_id U" and "commit_ok e"
  shows "\<exists>L'. snd (update_car e cid u U s) = [DbUpdateCar L'] \<and>
           get_car_row (exec s (snd (update_car e cid u U s))) cid = Some L' \<and>
           car_make L' = (case cu_make u of Unset \<Rightarrow> car_make L | Provided v \<Rightarrow> v) \<and>
           model L' = (case cu_model u of Unset \<Rightarrow> model L | Provided v \<Rightarrow> v) \<and>
           year L' = (case cu_year u of Unset \<Rightarrow> year L | Provided v \<Rightarrow> v) \<and>
           price L' = (case cu_price u of Unset \<Rightarrow> price L | Provided v \<Rightarrow> v) \<and>
           mileage L' = (case cu_mileage u of Unset \<Rightarrow> mileage L | Provided v \<Rightarrow> v) \<and>
           description L' =
             (case cu_description u of Unset \<Rightarrow> description L | Provided v \<Rightarrow> v) \<and>
           color L' = (case cu_color u of Unset \<Rightarrow> color L | Provided v \<Rightarrow> v) \<and>
           fuel_type L' = (case cu_fuel_type u of Unset \<Rightarrow> fuel_type L | Provided v \<Rightarrow> v) \<and>
           transmission L' =
             (case cu_transmission u of Unset \<Rightarrow> transmission L | Provided v \<Rightarrow> v) \<and>
           car_image L' = (case cu_image u of Unset \<Rightarrow> car_image L | Provided v \<Rightarrow> v) \<and>
           is_sold L' = (case cu_is_sold u of Unset \<Rightarrow> is_sold L | Provided v \<Rightarrow> v) \<and>
           car_id L' = car_id L \<and> seller_id L' = seller_id L \<and>
           created_at L' = created_at L \<and>
           (\<forall>p. u = no_update\<lparr>cu_price := Provided p\<rparr> \<longrightarrow> L' = L\<lparr>price := p\<rparr>)"
proof (rule exI [where x = "apply_update u L"], intro conjI)
  show "snd (update_car e cid u U s) = [DbUpdateCar (apply_update u L)]"
    using assms by (rule update_car_effects)
  show "get_car_row (exec s (snd (update_car e cid u U s))) cid = Some (apply_update u L)"
    using assms by (rule update_car_row)
  show "\<forall>p. u = no_update\<lparr>cu_price := Provided p\<rparr> \<longrightarrow> apply_update u L = L\<lparr>price := p\<rparr>"
    by (simp add: apply_update_price_only)
qed (simp_all add: apply_update_def set_field_case)

theorem update_car_partial_witness:
  "get_car_row shop ''c1'' = Some camry \<and> seller_id camry = user_id alice \<and> commit_ok env0 \<and>
   snd (update_car env0 ''c1'' (no_update\<lparr>cu_price := Provided (Some 24000)\<rparr>) alice shop) =
     [DbUpdateCar (camry\<lparr>price := Some 24000\<rparr>)] \<and>
   get_car_row (exec shop
       (snd (update_car env0 ''c1'' (no_update\<lparr>cu_price := Provided (Some 24000)\<rparr>) alice shop)))
     ''c1'' = Some (camry\<lparr>price := Some 24000\<rparr>)"
proof -
  have b: "seller_id camry = user_id alice"
    by (simp add: camry_def alice_def)
  have c: "commit_ok env0"
    by (simp add: env0_def)
  from update_car_partial [OF get_car_row_shop b c,
      of "no_update\<lparr>cu_price := Provided (Some 24000)\<rparr>"]
  obtain L' where
    1: "snd (update_car env0 ''c1'' (no_update\<lparr>cu_price := Provided (Some 24000)\<rparr>) alice shop) =
          [DbUpdateCar L']" and
    2: "get_car_row (exec shop
          (snd (update_car env0 ''c1'' (no_update\<lparr>cu_price := Provided (Some 24000)\<rparr>) alice
            shop))) ''c1'' = Some L'" and
    3: "\<forall>p. no_update\<lparr>cu_price := Provided (Some 24000)\<rparr> = no_update\<lparr>cu_price := Provided p\<rparr> \<longrightarrow>
          L' = camry\<lparr>price := p\<rparr>"
    by blast
  from 3 have "L' = camry\<lparr>price := Some 24000\<rparr>" by blast
  with 1 2 get_car_row_shop b c show ?thesis by blast
qed

subsection \<open>Validation and naming of uploads\<close>

lemma photo_suffix: "path_suffix (filename photo) = ''.PNG''"
  by (simp add: photo_def path_suffix_def path_name_def)

lemma lower_PNG: "str_lower env0 ''.PNG'' = ''.png''"
proof -
  have "ascii_lower ''.PNG'' = ''.png''"
    by code_simp
  then show ?thesis by (simp add: env0_def)
qed

lemma photo_name: "unique_filename env0 ''n1'' photo = ''n1.png''"
  by (simp add: unique_filename_def file_extension_def photo_suffix lower_PNG)

lemma unique_filename_eq:
  "unique_filename e uuid file =
     uuid @ (if str_lower e (path_suffix (filename file)) = [] then ''.jpg''
             else str_lower e (path_suffix (filename file)))"
  by (simp add: unique_filename_def file_extension_def Let_def)

lemma unique_filename_inj:
  "length uuid2 = length uuid \<Longrightarrow> uuid2 \<noteq> uuid \<Longrightarrow>
   unique_filename e uuid2 file2 \<noteq> unique_filename e uuid file"
  by (simp add: unique_filename_def)

lemma check_upload_type:
  "content_type file \<notin> {''image/jpeg'', ''image/jpg'', ''image/png'', ''image/webp''} \<Longrightarrow>
   check_upload file = Some (HTTPException 400
      ''Invalid file type. Only JPEG, PNG, and WebP images are allowed.'' [])"
  by (simp add: check_upload_def allowed_types_def)

lemma check_upload_size:
  "content_type file \<in> {''image/jpeg'', ''image/jpg'', ''image/png'', ''image/webp''} \<Longrightarrow>
   5 * 1024 * 1024 < length (contents file) \<Longrightarrow>
   check_upload file = Some (HTTPException 400 ''File too large. Maximum size is 5MB.'' [])"
  by (simp add: check_upload_def allowed_types_def max_size_def)

lemma check_upload_ok:
  "content_type file \<in> {''image/jpeg'', ''image/jpg'', ''image/png'', ''image/webp''} \<Longrightarrow>
   length (contents file) \<le> 5 * 1024 * 1024 \<Longrightarrow> check_upload file = None"
  by (simp add: check_upload_def allowed_types_def max_size_def)

lemma check_upload_big:
  "5 * 1024 * 1024 < length (contents file) \<Longrightarrow>
   \<exists>detail. check_upload file = Some (HTTPException 400 detail [])"
  by (simp add: check_upload_def max_size_def)

lemma upload_car_image_rejected:
  "check_upload file = Some err \<Longrightarrow> upload_car_image e uuid file U s = (Inl err, [])"
  by (simp add: upload_car_image_def)

lemma upload_car_with_image_rejected:
  "check_upload file = Some err \<Longrightarrow>
   upload_car_with_image e uuid uuid_car form file U s = (Inl err, [])"
  by (simp add: upload_car_with_image_def)

lemma update_car_with_image_rejected:
  "check_upload file = Some err \<Longrightarrow> get_car_row s cid = Some L \<Longrightarrow>
   seller_id L = user_id U \<Longrightarrow>
   update_car_with_image e uuid cid cform (Some file) U s = (Inl err, [])"
  by (simp add: update_car_with_image_def)

lemma upload_car_image_stored:
  "check_upload file = None \<Longrightarrow> write_ok e \<Longrightarrow>
   upload_car_image e uuid file U s =
     (Inr \<lparr>ur_filename = unique_filename e uuid file,
            ur_url = ''/uploads/'' @ unique_filename e uuid file,
            ur_message = ''Image uploaded successfully''\<rparr>,
      [FileWrite (unique_filename e uuid file) (contents file)])"
  by (simp add: upload_car_image_def Let_def image_url_def)

lemma upload_car_with_image_stored:
  assumes "check_upload file = None" and "write_ok e" and "commit_ok e"
    and "get_car_row s uuid_car = None"
  shows "\<exists>r row. upload_car_with_image e uuid uuid_car form file U s =
           (Inr r, [FileWrite (unique_filename e uuid file) (contents file), DbAddCar row]) \<and>
         c_image r = ''/uploads/'' @ unique_filename e uuid file \<and>
         car_image row = Some (''/uploads/'' @ unique_filename e uuid file)"
  using assms
  by (auto simp add: upload_car_with_image_def Let_def image_url_def to_Car_def
      required_present_def)

lemma commit_update_prefix:
  "commit_ok e \<Longrightarrow>
   \<exists>rest. snd (commit_update e s L form url old new evs) =
     evs @ DbUpdateCar (apply_form form url L) # rest"
  by (auto simp add: commit_update_def Let_def cleanup_file_def split: option.splits)

lemma update_car_with_image_stored:
  assumes "check_upload file = None" and "write_ok e" and "commit_ok e"
    and "get_car_row s cid = Some L" and "seller_id L = user_id U"
  shows "\<exists>row rest. snd (update_car_with_image e uuid cid cform (Some file) U s) =
           FileWrite (unique_filename e uuid file) (contents file) # DbUpdateCar row # rest \<and>
         row = apply_form cform (Some (''/uploads/'' @ unique_filename e uuid file)) L \<and>
         car_image row = Some (''/uploads/'' @ unique_filename e uuid file)"
proof -
  let ?name = "unique_filename e uuid file"
  let ?evs = "[FileWrite ?name (contents file)]"
  have "update_car_with_image e uuid cid cform (Some file) U s =
      commit_update e s L cform (Some (''/uploads/'' @ ?name)) (old_image_name L) (Some ?name) ?evs"
    using assms by (simp add: update_car_with_image_def Let_def image_url_def)
  moreover obtain rest where
    "snd (commit_update e s L cform (Some (''/uploads/'' @ ?name)) (old_image_name L)
        (Some ?name) ?evs) =
     ?evs @ DbUpdateCar (apply_form cform (Some (''/uploads/'' @ ?name)) L) # rest"
    using commit_update_prefix [OF assms(3)] by blast
  ultimately show ?thesis
    by (simp add: apply_form_def)
qed


text \<open>
  C7, as the code has it, for the three handlers that take an image:
  \<^verbatim>\<open>POST /upload\<close>, \<^verbatim>\<open>POST /cars/upload\<close> and
  \<^verbatim>\<open>PUT /cars/{car_id}/upload\<close> (sent with a file, for a listing of the caller).
  An upload whose content type is none of \<^verbatim>\<open>image/jpeg\<close>, \<^verbatim>\<open>image/jpg\<close>,
  \<^verbatim>\<open>image/png\<close>, \<^verbatim>\<open>image/webp\<close> fails with status 400 "Invalid file type"
  and has no effect, whatever its size. An upload of one of these types whose payload
  exceeds 5 * 1024 * 1024 bytes fails with status 400 "File too large" and has no effect.
  Otherwise, when the write succeeds, the payload is written under the name made of the
  UUID drawn for the request followed by \<^verbatim>\<open>str.lower()\<close> of the extension of the
  original file name, or by \<^verbatim>\<open>.jpg\<close> when that is empty; this name is the one the
  response of \<^verbatim>\<open>POST /upload\<close> gives, and \<^verbatim>\<open>/uploads/\<close> followed by it is the
  image of the listing that \<^verbatim>\<open>POST /cars/upload\<close> stores and of the row that
  \<^verbatim>\<open>PUT /cars/{car_id}/upload\<close> commits. A file name without extension gives
  \<^verbatim>\<open>.jpg\<close> (\<^verbatim>\<open>str.lower()\<close> of the empty string being empty), and two different
  UUIDs of the same length never give the same name.
\<close>

theorem upload_validation:
  "(content_type file \<notin> {''image/jpeg'', ''image/jpg'', ''image/png'', ''image/webp''} \<longrightarrow>
      upload_car_image e uuid file U s =
        (Inl (HTTPException 400
           ''Invalid file type. Only JPEG, PNG, and WebP images are allowed.'' []), []) \<and>
      upload_car_with_image e uuid uuid_car form file U s =
        (Inl (HTTPException 400
           ''Invalid file type. Only JPEG, PNG, and WebP images are allowed.'' []), []) \<and>
      (get_car_row s cid = Some L \<and> seller_id L = user_id U \<longrightarrow>
         update_car_with_image e uuid cid cform (Some file) U s =
           (Inl (HTTPException 400
              ''Invalid file type. Only JPEG, PNG, and WebP images are allowed.'' []), []))) \<and>
   (content_type file \<in> {''image/jpeg'', ''image/jpg'', ''image/png'', ''image/webp''} \<and>
    5 * 1024 * 1024 < length (contents file) \<longrightarrow>
      upload_car_image e uuid file U s =
        (Inl (HTTPException 400 ''File too large. Maximum size is 5MB.'' []), []) \<and>
      upload_car_with_image e uuid uuid_car form file U s =
        (Inl (HTTPException 400 ''File too large. Maximum size is 5MB.'' []), []) \<and>
      (get_car_row s cid = Some L \<and> seller_id L = user_id U \<longrightarrow>
         update_car_with_image e uuid cid cform (Some file) U s =
           (Inl (HTTPException 400 ''File too large. Maximum size is 5MB.'' []), []))) \<and>
   (content_type file \<in> {''image/jpeg'', ''image/jpg'', ''image/png'', ''image/webp''} \<and>
    length (contents file) \<le> 5 * 1024 * 1024 \<and> write_ok e \<longrightarrow>
      upload_car_image e uuid file U s =
        (Inr \<lparr>ur_filename = unique_filename e uuid file,
               ur_url = ''/uploads/'' @ unique_filename e uuid file,
               ur_message = ''Image uploaded successfully''\<rparr>,
         [FileWrite (unique_filename e uuid file) (contents file)]) \<and>
      (commit_ok e \<and> get_car_row s uuid_car = None \<longrightarrow>
         (\<exists>r row. upload_car_with_image e uuid uuid_car form file U s =
              (Inr r, [FileWrite (unique_filename e uuid file) (contents file), DbAddCar row]) \<and>
            c_image r = ''/uploads/'' @ unique_filename e uuid file \<and>
            car_image row = Some (''/uploads/'' @ unique_filename e uuid file))) \<and>
      (commit_ok e \<and> get_car_row s cid = Some L \<and> seller_id L = user_id U \<longrightarrow>
         (\<exists>row rest. snd (update_car_with_image e uuid cid cform (Some file) U s) =
              FileWrite (unique_filename e uuid file) (contents file) #
              DbUpdateCar row # rest \<and>
            row = apply_form cform (Some (''/uploads/'' @ unique_filename e uuid file)) L \<and>
            car_image row = Some (''/uploads/'' @ unique_filename e uuid file)))) \<and>
   unique_filename e uuid file =
     uuid @ (if str_lower e (path_suffix (filename file)) = [] then ''.jpg''
             else str_lower e (path_suffix (filename file))) \<and>
   (str_lower e [] = [] \<and> path_suffix (filename file) = [] \<longrightarrow>
      unique_filename e uuid file = uuid @ ''.jpg'') \<and>
   (\<forall>uuid2 file2. length uuid2 = length uuid \<and> uuid2 \<noteq> uuid \<longrightarrow>
      unique_filename e uuid2 file2 \<noteq> unique_filename e uuid file)"
proof (intro conjI impI allI)
  assume "content_type file \<notin> {''image/jpeg'', ''image/jpg'', ''image/png'', ''image/webp''}"
  then have c: "check_upload file = Some (HTTPException 400
      ''Invalid file type. Only JPEG, PNG, and WebP images are allowed.'' [])"
    by (rule check_upload_type)
  from c show "upload_car_image e uuid file U s =
        (Inl (HTTPException 400
           ''Invalid file type. Only JPEG, PNG, and WebP images are allowed.'' []), [])"
    by (rule upload_car_image_rejected)
  from c show "upload_car_with_image e uuid uuid_car form file U s =
        (Inl (HTTPException 400
           ''Invalid file type. Only JPEG, PNG, and WebP images are allowed.'' []), [])"
    by (rule upload_car_with_image_rejected)
  assume "get_car_row s cid = Some L \<and> seller_id L = user_id U"
  with c show "update_car_with_image e uuid cid cform (Some file) U s =
           (Inl (HTTPException 400
              ''Invalid file type. Only JPEG, PNG, and WebP images are allowed.'' []), [])"
    by (simp add: update_car_with_image_rejected)
next
  assume "content_type file \<in> {''image/jpeg'', ''image/jpg'', ''image/png'', ''image/webp''} \<and>
    5 * 1024 * 1024 < length (contents file)"
  then have c: "check_upload file =
      Some (HTTPException 400 ''File too large. Maximum size is 5MB.'' [])"
    by (simp only: check_upload_size)
  from c show "upload_car_image e uuid file U s =
        (Inl (HTTPException 400 ''File too large. Maximum size is 5MB.'' []), [])"
    by (rule upload_car_image_rejected)
  from c show "upload_car_with_image e uuid uuid_car form file U s =
        (Inl (HTTPException 400 ''File too large. Maximum size is 5MB.'' []), [])"
    by (rule upload_car_with_image_rejected)
  assume "get_car_row s cid = Some L \<and> seller_id L = user_id U"
  with c show "update_car_with_image e uuid cid cform (Some file) U s =
           (Inl (HTTPException 400 ''File too large. Maximum size is 5MB.'' []), [])"
    by (simp add: update_car_with_image_rejected)
next
  assume a: "content_type file \<in> {''image/jpeg'', ''image/jpg'', ''image/png'', ''image/webp''} \<and>
    length (contents file) \<le> 5 * 1024 * 1024 \<and> write_ok e"
  then have c: "check_upload file = None"
    by (simp only: check_upload_ok)
  from a have w: "write_ok e"
    by simp
  from c w show "upload_car_image e uuid file U s =
        (Inr \<lparr>ur_filename = unique_filename e uuid file,
               ur_url = ''/uploads/'' @ unique_filename e uuid file,
               ur_message = ''Image uploaded successfully''\<rparr>,
         [FileWrite (unique_filename e uuid file) (contents file)])"
    by (rule upload_car_image_stored)
  {
    assume "commit_ok e \<and> get_car_row s uuid_car = None"
    then have "commit_ok e" and "get_car_row s uuid_car = None"
      by simp_all
    with c w show "\<exists>r row. upload_car_with_image e uuid uuid_car form file U s =
              (Inr r, [FileWrite (unique_filename e uuid file) (contents file), DbAddCar row]) \<and>
            c_image r = ''/uploads/'' @ unique_filename e uuid file \<and>
            car_image row = Some (''/uploads/'' @ unique_filename e uuid file)"
      by (rule upload_car_with_image_stored)
  }
  {
    assume "commit_ok e \<and> get_car_row s cid = Some L \<and> seller_id L = user_id U"
    then have "commit_ok e" and "get_car_row s cid = Some L" and "seller_id L = user_id U"
      by simp_all
    with c w show "\<exists>row rest. snd (update_car_with_image e uuid cid cform (Some file) U s) =
              FileWrite (unique_filename e uuid file) (contents file) #
              DbUpdateCar row # rest \<and>
            row = apply_form cform (Some (''/uploads/'' @ unique_filename e uuid file)) L \<and>
            car_image row = Some (''/uploads/'' @ unique_filename e uuid file)"
      by (rule update_car_with_image_stored)
  }
next
  show "unique_filename e uuid file =
     uuid @ (if str_lower e (path_suffix (filename file)) = [] then ''.jpg''
             else str_lower e (path_suffix (filename file)))"
    by (rule unique_filename_eq)
next
  assume "str_lower e [] = [] \<and> path_suffix (filename file) = []"
  then show "unique_filename e uuid file = uuid @ ''.jpg''"
    by (simp add: unique_filename_eq)
next
  fix uuid2 file2
  assume "length uuid2 = length uuid \<and> uuid2 \<noteq> uuid"
  then show "unique_filename e uuid2 file2 \<noteq> unique_filename e uuid file"
    by (simp add: unique_filename_inj)
qed


lemma get_car_row_shop_c2: "get_car_row shop ''c2'' = None"
  by (simp add: get_car_row_def shop_def camry_def)

lemma noext_suffix: "path_suffix (filename noext) = []"
  by (simp add: noext_def path_suffix_def path_name_def)

lemma lower_Nil: "str_lower env0 [] = []"
  by (simp add: env0_def ascii_lower_def)

theorem upload_validation_witness:
  "(content_type gif \<notin> {''image/jpeg'', ''image/jpg'', ''image/png'', ''image/webp''} \<and>
    upload_car_image env0 ''n1'' gif alice shop = (Inl (HTTPException 400
        ''Invalid file type. Only JPEG, PNG, and WebP images are allowed.'' []), []) \<and>
    upload_car_with_image env0 ''n1'' ''c2'' civic_form gif alice shop = (Inl (HTTPException 400
        ''Invalid file type. Only JPEG, PNG, and WebP images are allowed.'' []), []) \<and>
    get_car_row shop ''c1'' = Some camry \<and> seller_id camry = user_id alice \<and>
    update_car_with_image env0 ''n1'' ''c1'' no_form (Some gif) alice shop = (Inl (HTTPException 400
        ''Invalid file type. Only JPEG, PNG, and WebP images are allowed.'' []), [])) \<and>
   (content_type huge \<in> {''image/jpeg'', ''image/jpg'', ''image/png'', ''image/webp''} \<and> 5 * 1024 * 1024 < length (contents huge) \<and>
    upload_car_image env0 ''n1'' huge alice shop = (Inl (HTTPException 400 ''File too large. Maximum size is 5MB.'' []), []) \<and>
    upload_car_with_image env0 ''n1'' ''c2'' civic_form huge alice shop = (Inl (HTTPException 400 ''File too large. Maximum size is 5MB.'' []), []) \<and>
    update_car_with_image env0 ''n1'' ''c1'' no_form (Some huge) alice shop = (Inl (HTTPException 400 ''File too large. Maximum size is 5MB.'' []), [])) \<and>
   (content_type photo \<in> {''image/jpeg'', ''image/jpg'', ''image/png'', ''image/webp''} \<and> length (contents photo) \<le> 5 * 1024 * 1024 \<and>
    write_ok env0 \<and> commit_ok env0 \<and> get_car_row shop ''c2'' = None \<and>
    upload_car_image env0 ''n1'' photo alice shop =
      (Inr \<lparr>ur_filename = ''n1.png'', ur_url = ''/uploads/n1.png'',
             ur_message = ''Image uploaded successfully''\<rparr>,
       [FileWrite ''n1.png'' (contents photo)]) \<and>
    (\<exists>r row. upload_car_with_image env0 ''n1'' ''c2'' civic_form photo alice shop =
         (Inr r, [FileWrite ''n1.png'' (contents photo), DbAddCar row]) \<and>
       c_image r = ''/uploads/n1.png'' \<and> car_image row = Some ''/uploads/n1.png'') \<and>
    (\<exists>row rest. snd (update_car_with_image env0 ''n1'' ''c1'' no_form (Some photo) alice shop) =
         FileWrite ''n1.png'' (contents photo) # DbUpdateCar row # rest \<and>
       row = apply_form no_form (Some ''/uploads/n1.png'') camry \<and>
       car_image row = Some ''/uploads/n1.png'')) \<and>
   (str_lower env0 [] = [] \<and> path_suffix (filename noext) = [] \<and>
    unique_filename env0 ''n1'' noext = ''n1.jpg'') \<and>
   (length ''n2'' = length ''n1'' \<and> ''n2'' \<noteq> ''n1'' \<and>
    unique_filename env0 ''n2'' gif \<noteq> unique_filename env0 ''n1'' photo)"
proof -
  note g = upload_validation [of gif env0 "''n1''" alice shop "''c2''" civic_form "''c1''"
      camry no_form]
  note h = upload_validation [of huge env0 "''n1''" alice shop "''c2''" civic_form "''c1''"
      camry no_form]
  note p = upload_validation [of photo env0 "''n1''" alice shop "''c2''" civic_form "''c1''"
      camry no_form]
  note n = upload_validation [of noext env0 "''n1''" alice shop "''c2''" civic_form "''c1''"
      camry no_form]
  have own: "get_car_row shop ''c1'' = Some camry \<and> seller_id camry = user_id alice"
    by (simp add: get_car_row_shop) (simp add: camry_def alice_def)
  have ok: "write_ok env0 \<and> commit_ok env0"
    by (simp add: env0_def)
  have tg: "content_type gif \<notin> {''image/jpeg'', ''image/jpg'', ''image/png'', ''image/webp''}"
    by (simp add: gif_def)
  have th: "content_type huge \<in> {''image/jpeg'', ''image/jpg'', ''image/png'', ''image/webp''} \<and> 5 * 1024 * 1024 < length (contents huge)"
    by (simp add: huge_def)
  have tp: "content_type photo \<in> {''image/jpeg'', ''image/jpg'', ''image/png'', ''image/webp''} \<and> length (contents photo) \<le> 5 * 1024 * 1024"
    by (simp add: photo_def)
  have 1: "content_type gif \<notin> {''image/jpeg'', ''image/jpg'', ''image/png'', ''image/webp''} \<and>
    upload_car_image env0 ''n1'' gif alice shop = (Inl (HTTPException 400
        ''Invalid file type. Only JPEG, PNG, and WebP images are allowed.'' []), []) \<and>
    upload_car_with_image env0 ''n1'' ''c2'' civic_form gif alice shop = (Inl (HTTPException 400
        ''Invalid file type. Only JPEG, PNG, and WebP images are allowed.'' []), []) \<and>
    get_car_row shop ''c1'' = Some camry \<and> seller_id camry = user_id alice \<and>
    update_car_with_image env0 ''n1'' ''c1'' no_form (Some gif) alice shop = (Inl (HTTPException 400
        ''Invalid file type. Only JPEG, PNG, and WebP images are allowed.'' []), [])"
    using g tg own by blast
  have 2: "content_type huge \<in> {''image/jpeg'', ''image/jpg'', ''image/png'', ''image/webp''} \<and> 5 * 1024 * 1024 < length (contents huge) \<and>
    upload_car_image env0 ''n1'' huge alice shop = (Inl (HTTPException 400 ''File too large. Maximum size is 5MB.'' []), []) \<and>
    upload_car_with_image env0 ''n1'' ''c2'' civic_form huge alice shop = (Inl (HTTPException 400 ''File too large. Maximum size is 5MB.'' []), []) \<and>
    update_car_with_image env0 ''n1'' ''c1'' no_form (Some huge) alice shop = (Inl (HTTPException 400 ''File too large. Maximum size is 5MB.'' []), [])"
    using h th own by blast
  have "upload_car_image env0 ''n1'' photo alice shop =
        (Inr \<lparr>ur_filename = unique_filename env0 ''n1'' photo,
               ur_url = ''/uploads/'' @ unique_filename env0 ''n1'' photo,
               ur_message = ''Image uploaded successfully''\<rparr>,
         [FileWrite (unique_filename env0 ''n1'' photo) (contents photo)])"
    using p tp ok by blast
  then have 3: "upload_car_image env0 ''n1'' photo alice shop =
      (Inr \<lparr>ur_filename = ''n1.png'', ur_url = ''/uploads/n1.png'',
             ur_message = ''Image uploaded successfully''\<rparr>,
       [FileWrite ''n1.png'' (contents photo)])"
    by (simp add: photo_name)
  have "\<exists>r row. upload_car_with_image env0 ''n1'' ''c2'' civic_form photo alice shop =
              (Inr r, [FileWrite (unique_filename env0 ''n1'' photo) (contents photo),
                       DbAddCar row]) \<and>
            c_image r = ''/uploads/'' @ unique_filename env0 ''n1'' photo \<and>
            car_image row = Some (''/uploads/'' @ unique_filename env0 ''n1'' photo)"
    using p tp ok get_car_row_shop_c2 by blast
  then have 4: "\<exists>r row. upload_car_with_image env0 ''n1'' ''c2'' civic_form photo alice shop =
         (Inr r, [FileWrite ''n1.png'' (contents photo), DbAddCar row]) \<and>
       c_image r = ''/uploads/n1.png'' \<and> car_image row = Some ''/uploads/n1.png''"
    by (simp add: photo_name)
  have "\<exists>row rest. snd (update_car_with_image env0 ''n1'' ''c1'' no_form (Some photo) alice shop) =
              FileWrite (unique_filename env0 ''n1'' photo) (contents photo) #
              DbUpdateCar row # rest \<and>
            row = apply_form no_form (Some (''/uploads/'' @ unique_filename env0 ''n1'' photo)) camry \<and>
            car_image row = Some (''/uploads/'' @ unique_filename env0 ''n1'' photo)"
    using p tp ok own by blast
  then have 5: "\<exists>row rest. snd (update_car_with_image env0 ''n1'' ''c1'' no_form (Some photo) alice shop) =
         FileWrite ''n1.png'' (contents photo) # DbUpdateCar row # rest \<and>
       row = apply_form no_form (Some ''/uploads/n1.png'') camry \<and>
       car_image row = Some ''/uploads/n1.png''"
    by (simp add: photo_name)
  have "unique_filename env0 ''n1'' noext = ''n1'' @ ''.jpg''"
    using n lower_Nil noext_suffix by blast
  then have 6: "unique_filename env0 ''n1'' noext = ''n1.jpg''"
    by simp
  have 7: "length ''n2'' = length ''n1'' \<and> ''n2'' \<noteq> ''n1''"
    by simp
  have "\<forall>uuid2 file2. length uuid2 = length ''n1'' \<and> uuid2 \<noteq> ''n1'' \<longrightarrow>
      unique_filename env0 uuid2 file2 \<noteq> unique_filename env0 ''n1'' photo"
    using p by blast
  with 7 have 8: "unique_filename env0 ''n2'' gif \<noteq> unique_filename env0 ''n1'' photo"
    by blast
  from 1 2 tp ok get_car_row_shop_c2 3 4 5 lower_Nil noext_suffix 6 7 8 show ?thesis
    by (intro conjI) (simp_all only: simp_thms)
qed

lemma check_huge_gif:
  "check_upload huge_gif = Some (HTTPException 400
      ''Invalid file type. Only JPEG, PNG, and WebP images are allowed.'' [])"
  by (rule check_upload_type) (simp add: huge_gif_def)

text \<open>
  C7, as the specification states it, fails in two ways. The extension of the original
  name is not preserved when it has an upper-case letter: \<^verbatim>\<open>Front.PNG\<close> is stored
  as \<^verbatim>\<open>n1.png\<close>. And a payload over 5 MiB does not always fail with "File too
  large": a GIF of 5242881 bytes fails with "Invalid file type", the type being checked
  first.
\<close>

theorem upload_extension_counterexample:
  "path_suffix (filename photo) = ''.PNG'' \<and>
   upload_car_image env0 ''n1'' photo alice shop =
     (Inr \<lparr>ur_filename = ''n1.png'', ur_url = ''/uploads/n1.png'',
            ur_message = ''Image uploaded successfully''\<rparr>,
      [FileWrite ''n1.png'' [7, 8]]) \<and>
   path_suffix ''n1.png'' = ''.png'' \<and>
   path_suffix ''n1.png'' \<noteq> path_suffix (filename photo) \<and>
   5 * 1024 * 1024 < length (contents huge_gif) \<and>
   upload_car_image env0 ''n1'' huge_gif alice shop = (Inl (HTTPException 400
        ''Invalid file type. Only JPEG, PNG, and WebP images are allowed.'' []), []) \<and>
   upload_car_image env0 ''n1'' huge_gif alice shop \<noteq> (Inl (HTTPException 400 ''File too large. Maximum size is 5MB.'' []), [])"
proof -
  have c: "check_upload photo = None"
    by (simp add: check_upload_def photo_def allowed_types_def max_size_def)
  have 1: "upload_car_image env0 ''n1'' photo alice shop =
     (Inr \<lparr>ur_filename = ''n1.png'', ur_url = ''/uploads/n1.png'',
            ur_message = ''Image uploaded successfully''\<rparr>,
      [FileWrite ''n1.png'' [7, 8]])"
    by (simp only: upload_car_image_def c photo_name Let_def option.case)
      (simp add: image_url_def env0_def photo_def)
  have 2: "path_suffix ''n1.png'' = ''.png''"
    by (simp add: path_suffix_def path_name_def)
  have 3: "5 * 1024 * 1024 < length (contents huge_gif)"
    by (simp add: huge_gif_def)
  have 4: "upload_car_image env0 ''n1'' huge_gif alice shop = (Inl (HTTPException 400
        ''Invalid file type. Only JPEG, PNG, and WebP images are allowed.'' []), [])"
    by (simp add: upload_car_image_def check_huge_gif)
  from 1 2 3 4 photo_suffix show ?thesis by simp
qed

subsection \<open>Replacing an image\<close>

lemma check_photo: "check_upload photo = None"
  by (simp add: check_upload_def photo_def allowed_types_def max_size_def)

lemma update_null_make:
  "update_car env0 ''c1'' null_make alice shop =
     (Inl (Unhandled ''ValidationError''), [DbUpdateCar (camry\<lparr>car_make := None\<rparr>)])"
  by (simp add: update_car_def get_car_row_shop null_make_def no_update_def apply_update_def
      to_Car_def required_present_def camry_def alice_def env0_def)

lemma shop1_eq: "shop1 = shop\<lparr>cars := [camry\<lparr>car_make := None\<rparr>]\<rparr>"
  by (simp add: shop1_def update_null_make exec_def) (simp add: shop_def camry_def)

lemma get_car_row_shop1: "get_car_row shop1 ''c1'' = Some (camry\<lparr>car_make := None\<rparr>)"
  by (simp add: shop1_eq get_car_row_def camry_def)

text \<open>
  C6. The handler writes the new file, commits the row and unlinks the old file in that
  order, but all three of commit, unlink and building the response sit in one
  \<^verbatim>\<open>try\<close> whose \<^verbatim>\<open>except\<close> unlinks the new file. Alice first nulls the make of
  her listing through the JSON update (the row is committed, the response fails), then
  replaces its image: the commit succeeds, the old file is unlinked, the response cannot
  be built, and the new file is unlinked too. The listing then references
  \<^verbatim>\<open>/uploads/n1.png\<close>, which is no longer stored.
\<close>

theorem update_car_with_image_dangling:
  "update_car env0 ''c1'' null_make alice shop =
     (Inl (Unhandled ''ValidationError''), [DbUpdateCar (camry\<lparr>car_make := None\<rparr>)]) \<and>
   get_car_row shop1 ''c1'' = Some (camry\<lparr>car_make := None\<rparr>) \<and>
   update_car_with_image env0 ''n1'' ''c1'' no_form (Some photo) alice shop1 =
     (Inl (HTTPException 500 ''Failed to update car'' []),
      [FileWrite ''n1.png'' [7, 8],
       DbUpdateCar (camry\<lparr>car_make := None, car_image := Some ''/uploads/n1.png''\<rparr>),
       FileUnlink ''old.jpg'', FileUnlink ''n1.png'']) \<and>
   get_car_row shop2 ''c1'' =
     Some (camry\<lparr>car_make := None, car_image := Some ''/uploads/n1.png''\<rparr>) \<and>
   files shop2 ''n1.png'' = None"
proof -
  have u: "update_car_with_image env0 ''n1'' ''c1'' no_form (Some photo) alice shop1 =
     (Inl (HTTPException 500 ''Failed to update car'' []),
      [FileWrite ''n1.png'' [7, 8],
       DbUpdateCar (camry\<lparr>car_make := None, car_image := Some ''/uploads/n1.png''\<rparr>),
       FileUnlink ''old.jpg'', FileUnlink ''n1.png''])"
  proof -
    have 1: "update_car_with_image env0 ''n1'' ''c1'' no_form (Some photo) alice shop1 =
       commit_update env0 shop1 (camry\<lparr>car_make := None\<rparr>) no_form
         (Some ''/uploads/n1.png'') (Some ''old.jpg'') (Some ''n1.png'')
         [FileWrite ''n1.png'' [7, 8]]"
      by (simp only: update_car_with_image_def get_car_row_shop1 option.case check_photo
          photo_name Let_def)
        (simp add: camry_def alice_def env0_def image_url_def old_image_name_def photo_def)
    have 2: "commit_update env0 shop1 (camry\<lparr>car_make := None\<rparr>) no_form
         (Some ''/uploads/n1.png'') (Some ''old.jpg'') (Some ''n1.png'')
         [FileWrite ''n1.png'' [7, 8]] =
       (Inl (HTTPException 500 ''Failed to update car'' []),
        [FileWrite ''n1.png'' [7, 8],
         DbUpdateCar (camry\<lparr>car_make := None, car_image := Some ''/uploads/n1.png''\<rparr>),
         FileUnlink ''old.jpg'', FileUnlink ''n1.png''])"
      by (simp add: commit_update_def Let_def apply_form_def no_form_def to_Car_def
          required_present_def cleanup_file_def exec_def shop1_eq env0_def)
        (simp add: shop_def camry_def)
    from 1 2 show ?thesis by (rule trans)
  qed
  have r: "get_car_row shop2 ''c1'' =
     Some (camry\<lparr>car_make := None, car_image := Some ''/uploads/n1.png''\<rparr>)"
    by (simp only: shop2_def u snd_conv)
      (simp add: exec_def shop1_eq get_car_row_def shop_def camry_def)
  have f: "files shop2 ''n1.png'' = None"
    by (simp only: shop2_def u snd_conv) (simp add: exec_def)
  from update_null_make get_car_row_shop1 u r f show ?thesis by blast
qed

subsection \<open>Price and mileage\<close>

lemma apply_event_nonneg:
  assumes "list_all nonneg_car (cars s)"
    and "\<And>c. ev = DbAddCar c \<or> ev = DbUpdateCar c \<Longrightarrow> nonneg_car c"
  shows "list_all nonneg_car (cars (apply_event s ev))"
  using assms by (cases ev) (auto simp add: list_all_iff)

lemma exec_nonneg:
  "list_all nonneg_car (cars s) \<Longrightarrow>
   (\<And>c. DbAddCar c \<in> set evs \<or> DbUpdateCar c \<in> set evs \<Longrightarrow> nonneg_car c) \<Longrightarrow>
   list_all nonneg_car (cars (exec s evs))"
proof (induction evs arbitrary: s)
  case Nil
  then show ?case by (simp add: exec_def)
next
  case (Cons ev evs)
  have "list_all nonneg_car (cars (apply_event s ev))"
    using Cons.prems by (intro apply_event_nonneg) auto
  then have "list_all nonneg_car (cars (exec (apply_event s ev) evs))"
    using Cons.prems(2) by (intro Cons.IH) auto
  then show ?case by (simp add: exec_def)
qed

lemma get_car_row_mem: "get_car_row s cid = Some L \<Longrightarrow> L \<in> set (cars s)"
  unfolding get_car_row_def by (induction "cars s" arbitrary: s) (auto simp: find_Some_iff)

lemma set_field_nonneg:
  fixes f :: "('a::linordered_idom) field"
  shows "nonneg_field f \<Longrightarrow> (case old of None \<Rightarrow> False | Some p \<Rightarrow> 0 \<le> p) \<Longrightarrow>
   (case set_field f old of None \<Rightarrow> False | Some p \<Rightarrow> 0 \<le> p)"
  by (cases f rule: nonneg_field.cases) simp_all

lemma set_present_nonneg:
  fixes v :: "('a::linordered_idom) option"
  shows "nonneg_opt v \<Longrightarrow> (case old of None \<Rightarrow> False | Some p \<Rightarrow> 0 \<le> p) \<Longrightarrow>
   (case set_present v old of None \<Rightarrow> False | Some p \<Rightarrow> 0 \<le> p)"
  by (cases v) simp_all

lemma apply_update_nonneg:
  "nonneg_car L \<Longrightarrow> nonneg_field (cu_price u) \<Longrightarrow> nonneg_field (cu_mileage u) \<Longrightarrow>
   nonneg_car (apply_update u L)"
  by (simp add: nonneg_car_def apply_update_def set_field_nonneg)

lemma apply_form_nonneg:
  "nonneg_car L \<Longrightarrow> nonneg_opt (cf_price form) \<Longrightarrow> nonneg_opt (cf_mileage form) \<Longrightarrow>
   nonneg_car (apply_form form url L)"
  by (simp add: nonneg_car_def apply_form_def set_present_nonneg)

lemma create_car_events:
  assumes "0 \<le> cc_price car" and "0 \<le> cc_mileage car"
    and "DbAddCar c \<in> set (snd (create_car e uuid car U s)) \<or>
         DbUpdateCar c \<in> set (snd (create_car e uuid car U s))"
  shows "nonneg_car c"
  using assms
  by (auto simp add: create_car_def Let_def nonneg_car_def split: if_splits option.splits)

lemma cleanup_file_events:
  "set (snd (cleanup_file e s evs name detail)) \<subseteq> set evs \<union> {FileUnlink name}"
  by (auto simp add: cleanup_file_def)

lemma upload_car_with_image_events:
  assumes "0 \<le> nf_price form" and "0 \<le> nf_mileage form"
    and "DbAddCar c \<in> set (snd (upload_car_with_image e uuid_file uuid_car form file U s)) \<or>
         DbUpdateCar c \<in> set (snd (upload_car_with_image e uuid_file uuid_car form file U s))"
  shows "nonneg_car c"
  using assms
  by (auto simp add: upload_car_with_image_def Let_def nonneg_car_def cleanup_file_def
      split: if_splits option.splits)

lemma update_car_events:
  assumes "list_all nonneg_car (cars s)"
    and "nonneg_field (cu_price u)" and "nonneg_field (cu_mileage u)"
    and "DbAddCar c \<in> set (snd (update_car e cid u U s)) \<or>
         DbUpdateCar c \<in> set (snd (update_car e cid u U s))"
  shows "nonneg_car c"
proof (cases "get_car_row s cid")
  case None
  with assms(4) show ?thesis by (simp add: update_car_def)
next
  case (Some L)
  then have "nonneg_car L"
    using assms(1) get_car_row_mem by (auto simp add: list_all_iff)
  then have "nonneg_car (apply_update u L)"
    using assms(2,3) by (rule apply_update_nonneg)
  with assms(4) Some show ?thesis
    by (auto simp add: update_car_def Let_def split: if_splits option.splits)
qed

lemma commit_update_events:
  assumes "nonneg_car (apply_form form url L)"
    and "\<And>c'. DbAddCar c' \<notin> set evs \<and> DbUpdateCar c' \<notin> set evs"
    and "DbAddCar c \<in> set (snd (commit_update e s L form url old new evs)) \<or>
         DbUpdateCar c \<in> set (snd (commit_update e s L form url old new evs))"
  shows "nonneg_car c"
  using assms
  by (auto simp add: commit_update_def Let_def cleanup_file_def
      split: if_splits option.splits)

lemma update_car_with_image_events:
  assumes "list_all nonneg_car (cars s)"
    and "nonneg_opt (cf_price form)" and "nonneg_opt (cf_mileage form)"
    and "DbAddCar c \<in> set (snd (update_car_with_image e uuid cid form file U s)) \<or>
         DbUpdateCar c \<in> set (snd (update_car_with_image e uuid cid form file U s))"
  shows "nonneg_car c"
proof (cases "get_car_row s cid")
  case None
  with assms(4) show ?thesis by (simp add: update_car_with_image_def)
next
  case (Some L)
  then have "nonneg_car L"
    using assms(1) get_car_row_mem by (auto simp add: list_all_iff)
  then have n: "\<And>url. nonneg_car (apply_form form url L)"
    using assms(2,3) by (rule apply_form_nonneg)
  show ?thesis
  proof (cases "file")
    case None
    with assms(4) Some have
      "seller_id L = user_id U \<and>
       (DbAddCar c \<in> set (snd (commit_update e s L form (car_image L) None None [])) \<or>
        DbUpdateCar c \<in> set (snd (commit_update e s L form (car_image L) None None [])))"
      by (auto simp add: update_car_with_image_def split: if_splits)
    then show ?thesis
      using commit_update_events [OF n, of "[]"] by simp blast
  next
    case (Some f)
    let ?name = "unique_filename e uuid f"
    from assms(4) Some \<open>get_car_row s cid = Some L\<close> have
      "DbAddCar c \<in> set (snd (commit_update e s L form (Some (image_url ?name))
           (old_image_name L) (Some ?name) [FileWrite ?name (contents f)])) \<or>
       DbUpdateCar c \<in> set (snd (commit_update e s L form (Some (image_url ?name))
           (old_image_name L) (Some ?name) [FileWrite ?name (contents f)]))"
      by (auto simp add: update_car_with_image_def Let_def split: if_splits option.splits)
    then show ?thesis
      using commit_update_events [OF n, of "[FileWrite ?name (contents f)]"] by simp
  qed
qed

lemma effects_events:
  assumes "list_all nonneg_car (cars s)" and "nonneg_request r"
    and "DbAddCar c \<in> set (effects e r s) \<or> DbUpdateCar c \<in> set (effects e r s)"
  shows "nonneg_car c"
proof (cases r)
  case (CreateCar uuid car U)
  with assms have "0 \<le> cc_price car" and "0 \<le> cc_mileage car"
    and "DbAddCar c \<in> set (snd (create_car e uuid car U s)) \<or>
         DbUpdateCar c \<in> set (snd (create_car e uuid car U s))"
    by simp_all
  then show ?thesis by (rule create_car_events)
next
  case (UploadCar uuid_file uuid_car form f U)
  with assms have "0 \<le> nf_price form" and "0 \<le> nf_mileage form"
    and "DbAddCar c \<in> set (snd (upload_car_with_image e uuid_file uuid_car form f U s)) \<or>
         DbUpdateCar c \<in> set (snd (upload_car_with_image e uuid_file uuid_car form f U s))"
    by simp_all
  then show ?thesis by (rule upload_car_with_image_events)
next
  case (UpdateCar cid u U)
  with assms have "nonneg_field (cu_price u)" and "nonneg_field (cu_mileage u)"
    and "DbAddCar c \<in> set (snd (update_car e cid u U s)) \<or>
         DbUpdateCar c \<in> set (snd (update_car e cid u U s))"
    by simp_all
  with assms(1) show ?thesis by (rule update_car_events)
next
  case (UpdateCarUpload uuid cid form f U)
  with assms have "nonneg_opt (cf_price form)" and "nonneg_opt (cf_mileage form)"
    and "DbAddCar c \<in> set (snd (update_car_with_image e uuid cid form f U s)) \<or>
         DbUpdateCar c \<in> set (snd (update_car_with_image e uuid cid form f U s))"
    by simp_all
  with assms(1) show ?thesis by (rule update_car_with_image_events)
next
  case (DeleteCar cid U)
  with assms(3) show ?thesis
    by (auto simp add: delete_car_def split: option.splits if_splits)
qed

text \<open>
  C8, as the code has it: the handlers store the price and the mileage they are sent,
  so the listings keep a price and a mileage that are present and not negative as long
  as the requests do. If every listing of the starting state has a price and a mileage
  that are present and not negative, then after any sequence of create, update and
  delete requests (\<^verbatim>\<open>POST /cars\<close>, \<^verbatim>\<open>POST /cars/upload\<close>,
  \<^verbatim>\<open>PUT /cars/{car_id}\<close>, \<^verbatim>\<open>PUT /cars/{car_id}/upload\<close>,
  \<^verbatim>\<open>DELETE /cars/{car_id}\<close>, whether they succeed or fail) in which every create
  request sends a price and a mileage that are not negative and every update request
  that sends a price or a mileage sends one that is not null and not negative, every
  listing has a price and a mileage that are present and not negative.
\<close>

theorem nonneg_invariant:
  "list_all nonneg_car (cars s) \<Longrightarrow> list_all (\<lambda>(e, r). nonneg_request r) rs \<Longrightarrow>
   list_all nonneg_car (cars (run s rs))"
proof (induction rs arbitrary: s)
  case Nil
  then show ?case by simp
next
  case (Cons er rs)
  obtain e r where er: "er = (e, r)" by (cases er)
  with Cons.prems have r: "nonneg_request r" and rs: "list_all (\<lambda>(e, r). nonneg_request r) rs"
    by simp_all
  have "list_all nonneg_car (cars (exec s (effects e r s)))"
    using Cons.prems(1) effects_events [OF Cons.prems(1) r] by (rule exec_nonneg)
  then have "list_all nonneg_car (cars (run (exec s (effects e r s)) rs))"
    using rs by (rule Cons.IH)
  with er show ?case by simp
qed


theorem nonneg_invariant_witness:
  "list_all nonneg_car (cars shop) \<and>
   list_all (\<lambda>(e, r). nonneg_request r) requests \<and>
   list_all nonneg_car (cars (run shop requests))"
proof -
  have 1: "list_all nonneg_car (cars shop)"
    by (simp add: shop_def camry_def nonneg_car_def)
  have 2: "list_all (\<lambda>(e, r). nonneg_request r) requests"
    by (simp add: requests_def civic_def civic_form_def no_update_def no_form_def)
  from 1 2 have "list_all nonneg_car (cars (run shop requests))"
    by (rule nonneg_invariant)
  with 1 2 show ?thesis by simp
qed

lemma create_lemon:
  "create_car env0 ''c2'' lemon bob shop =
     (Inr \<lparr>c_id = ''c2'', c_make = ''Honda'', c_model = ''Civic'', c_year = 2019,
            c_price = - 1, c_mileage = - 5, c_description = None, c_color = ''Blue'',
            c_fuel_type = ''Gasoline'', c_transmission = ''Manual'', c_seller_id = ''u2'',
            c_created_at = 1000, c_image = ''/uploads/civic.jpg'', c_is_sold = False\<rparr>,
      [DbAddCar \<lparr>car_id = ''c2'', car_make = Some ''Honda'', model = Some ''Civic'',
                 year = Some 2019, price = Some (- 1), mileage = Some (- 5),
                 description = None, color = Some ''Blue'', fuel_type = Some ''Gasoline'',
                 transmission = Some ''Manual'', car_image = Some ''/uploads/civic.jpg'',
                 seller_id = ''u2'', created_at = 1000, is_sold = Some False\<rparr>])"
  by (auto simp add: create_car_def Let_def get_car_row_shop_c2 to_Car_def required_present_def
      lemon_def civic_def bob_def env0_def)

lemma update_slash:
  "snd (update_car env0 ''c1'' slash alice shop) =
     [DbUpdateCar (camry\<lparr>price := Some (- 1)\<rparr>)]"
  by (simp add: update_car_def get_car_row_shop Let_def)
    (simp add: camry_def alice_def env0_def slash_def no_update_def apply_update_def
      to_Car_def required_present_def)

text \<open>
  C8, as the specification states it, fails: no handler looks at the sign of a price or
  a mileage. From a marketplace whose only listing has a price and a mileage that are
  not negative, \<^verbatim>\<open>POST /cars\<close> with price -1 and mileage -5 stores a listing with
  that price and mileage, and \<^verbatim>\<open>PUT /cars/c1\<close> with price -1 gives the existing
  listing the price -1.
\<close>

theorem negative_price_counterexample:
  "list_all nonneg_car (cars shop) \<and>
   map price (cars (run shop [(env0, CreateCar ''c2'' lemon bob)])) =
     [Some 25000, Some (- 1)] \<and>
   map mileage (cars (run shop [(env0, CreateCar ''c2'' lemon bob)])) =
     [Some 30000, Some (- 5)] \<and>
   \<not> list_all nonneg_car (cars (run shop [(env0, CreateCar ''c2'' lemon bob)])) \<and>
   map price (cars (run shop [(env0, UpdateCar ''c1'' slash alice)])) = [Some (- 1)] \<and>
   \<not> list_all nonneg_car (cars (run shop [(env0, UpdateCar ''c1'' slash alice)]))"
proof -
  have 1: "list_all nonneg_car (cars shop)"
    by (simp add: shop_def camry_def nonneg_car_def)
  have 2: "cars (run shop [(env0, CreateCar ''c2'' lemon bob)]) =
      [camry, \<lparr>car_id = ''c2'', car_make = Some ''Honda'', model = Some ''Civic'',
                 year = Some 2019, price = Some (- 1), mileage = Some (- 5),
                 description = None, color = Some ''Blue'', fuel_type = Some ''Gasoline'',
                 transmission = Some ''Manual'', car_image = Some ''/uploads/civic.jpg'',
                 seller_id = ''u2'', created_at = 1000, is_sold = Some False\<rparr>]"
    by (simp add: create_lemon exec_def) (simp add: shop_def)
  have 3: "cars (run shop [(env0, UpdateCar ''c1'' slash alice)]) =
      [camry\<lparr>price := Some (- 1)\<rparr>]"
    by (simp add: update_slash exec_def) (simp add: shop_def)
  from 1 show ?thesis
    by (simp only: 2 3) (simp add: camry_def nonneg_car_def)
qed

end
